theory Spec2Isabelle
  imports Main
begin

section \<open>The mWHO classification engine of App.tsx\<close>

text \<open>
  The source file holds three drafts of one React component. The first draft
  (lines 1 to 593) is the TypeScript file itself; the second (lines 594 to 1141)
  and the third (lines 1142 to 1719) are the two other copies. Definitions
  without a suffix embed the first draft; a definition ending in 2 or 3 embeds
  the function of the same name in the second or third draft.
\<close>

subsection \<open>Strings\<close>

text \<open>
  A JavaScript string is embedded as the list of bytes of its UTF-8 encoding, so
  that \<open>===\<close> on strings is equality of lists. The literals of the embedded
  functions hold six characters outside ASCII.
\<close>

abbreviation en_dash :: string where
  "en_dash \<equiv> [CHR 0xE2, CHR 0x80, CHR 0x93]"

abbreviation em_dash :: string where
  "em_dash \<equiv> [CHR 0xE2, CHR 0x80, CHR 0x94]"

abbreviation minus_sign :: string where
  "minus_sign \<equiv> [CHR 0xE2, CHR 0x88, CHR 0x92]"

abbreviation le_sign :: string where
  "le_sign \<equiv> [CHR 0xE2, CHR 0x89, CHR 0xA4]"

abbreviation down_arrow :: string where
  "down_arrow \<equiv> [CHR 0xE2, CHR 0x86, CHR 0x93]"

abbreviation superscript_two :: string where
  "superscript_two \<equiv> [CHR 0xC2, CHR 0xB2]"

subsection \<open>Types and helpers\<close>

text \<open>
  \<^verbatim>\<open>type MWHO = "I" | "II" | "II-III" | "III" | "IV"\<close> is a union of five string
  literals; \<open>MWHO | null\<close> is \<open>MWHO option\<close>.
\<close>

datatype MWHO = Class_I | Class_II | Class_II_III | Class_III | Class_IV

definition ORDER :: "MWHO list" where
  "ORDER = [Class_I, Class_II, Class_II_III, Class_III, Class_IV]"

text \<open>\<open>Array.prototype.indexOf\<close>: the first position of the element, or \<open>-1\<close>.\<close>

fun indexOf :: "'a list \<Rightarrow> 'a \<Rightarrow> int" where
  "indexOf [] x = - 1"
| "indexOf (y # ys) x =
     (if y = x then 0
      else (let i = indexOf ys x in if i = - 1 then - 1 else i + 1))"

text \<open>
  \<open>xs[i]\<close> on an array: the element, or \<open>undefined\<close> (here \<open>None\<close>) when \<open>i\<close> is
  not an index of \<open>xs\<close>.
\<close>

definition at_index :: "'a list \<Rightarrow> int \<Rightarrow> 'a option" where
  "at_index xs i = (if 0 \<le> i \<and> i < int (length xs) then Some (xs ! nat i) else None)"

text \<open>
  \<open>highestClass\<close>, lines 85 to 88. \<open>!a\<close> holds of \<open>null\<close> only, no member of
  \<open>MWHO\<close> being the empty string; \<open>x ?? a\<close> is \<open>a\<close> when \<open>x\<close> is \<open>undefined\<close>.
\<close>

definition highestClass :: "MWHO option \<Rightarrow> MWHO option \<Rightarrow> MWHO option" where
  "highestClass a b =
     (case a of None \<Rightarrow> b
      | Some x \<Rightarrow>
         (case b of None \<Rightarrow> a
          | Some y \<Rightarrow>
             (case at_index ORDER (max (indexOf ORDER x) (indexOf ORDER y)) of
                Some c \<Rightarrow> Some c
              | None \<Rightarrow> a)))"

subsection \<open>Decision logic, first draft\<close>

text \<open>
  \<^verbatim>\<open>type Answers = Record<string, string>\<close>: an object read by property name; a
  property that was never set reads as \<open>undefined\<close>, here \<open>None\<close>. Each function
  returns an object with the two fields \<open>mwho\<close> and \<open>notes\<close>.
\<close>

type_synonym Answers = "string \<rightharpoonup> string"

record result =
  mwho :: "MWHO option"
  "notes" :: "string list"

text \<open>\<open>computeVentricularPH\<close>, lines 93 to 105: a chain of early returns.\<close>

definition computeVentricularPH :: "Answers \<Rightarrow> result" where
  "computeVentricularPH a =
     (let notes = [] in
      if a ''PAH'' = Some ''yes''
      then \<lparr>mwho = Some Class_IV, notes = notes @ [''Pulmonary arterial hypertension'']\<rparr>
      else if a ''LVEF'' = Some ''<30%'' \<or> a ''NYHA'' = Some ''III/IV''
      then \<lparr>mwho = Some Class_IV, notes = notes\<rparr>
      else if a ''LVEF'' = Some (''30'' @ en_dash @ ''45%'')
      then \<lparr>mwho = Some Class_III, notes = notes\<rparr>
      else if a ''LVEF'' = Some ''>45%''
      then
        (if a ''RVfunction'' = Some ''significant''
         then \<lparr>mwho = Some Class_II_III, notes = notes\<rparr>
         else if a ''PPCM'' = Some ''> mild residual''
         then \<lparr>mwho = Some Class_IV,
               notes = notes @ [''PPCM with > mild residual LV impairment'']\<rparr>
         else if a ''PPCM'' = Some (le_sign @ '' mild residual'')
         then \<lparr>mwho = Some Class_III,
               notes = notes @ [''PPCM with '' @ le_sign @ '' mild residual LV impairment'']\<rparr>
         else \<lparr>mwho = Some Class_II_III, notes = notes\<rparr>)
      else \<lparr>mwho = None, notes = notes\<rparr>)"

text \<open>
  \<open>computeCardiomyopathy\<close>, lines 107 to 119: the matching classes are pushed on
  \<open>picks\<close>, and \<open>picks.reduce(f, null)\<close> is a left fold from \<open>null\<close>.
\<close>

definition computeCardiomyopathy :: "Answers \<Rightarrow> result" where
  "computeCardiomyopathy a =
     (let picks = [];
          picks = (if a ''HCMgenoPheno'' = Some (''+/'' @ minus_sign)
                   then picks @ [Some Class_I] else picks);
          picks = (if a ''HCMcomp'' = Some ''arrhythmic/moderate-hemodynamic''
                   then picks @ [Some Class_III] else picks);
          picks = (if a ''HCMcomp'' = Some ''severe-LVOT>=50-or-EF<50%''
                   then picks @ [Some Class_IV] else picks);
          picks = (if a ''DCM_EF'' = Some ''>45%''
                   then picks @ [Some Class_II_III] else picks);
          picks = (if a ''DCM_EF'' = Some (''30'' @ en_dash @ ''45%'')
                   then picks @ [Some Class_III] else picks);
          picks = (if a ''DCM_EF'' = Some ''<30%/NYHAIII-IV''
                   then picks @ [Some Class_IV] else picks);
          picks = (if a ''ARVC'' = Some ''low-risk''
                   then picks @ [Some Class_II_III] else picks);
          picks = (if a ''ARVC'' = Some ''moderate/severe''
                   then picks @ [Some Class_III] else picks);
          mwho = foldl (\<lambda>acc cur. highestClass acc cur) None picks
      in \<lparr>mwho = mwho, notes = []\<rparr>)"

text \<open>\<open>computeValvular\<close>, lines 121 to 143.\<close>

definition computeValvular :: "Answers \<Rightarrow> result" where
  "computeValvular a =
     (let m = None; notes = [];
          m = (if a ''PS_sev'' = Some ''mild'' then highestClass m (Some Class_I) else m);
          (m, notes) =
            (if a ''PS_sev'' = Some ''moderate/severe''
             then (highestClass m (Some Class_II_III),
                   notes @ [''Moderate/severe PS '' @ em_dash @ '' confirm gradients and RV pressure''])
             else (m, notes));
          m = (if a ''MS'' = Some ''moderate'' then highestClass m (Some Class_III) else m);
          m = (if a ''MS'' = Some ''severe'' then highestClass m (Some Class_IV) else m);
          m = (if a ''AS'' = Some ''severe-asymptomatic''
               then highestClass m (Some Class_III) else m);
          m = (if a ''AS'' = Some ''severe-symptomatic''
               then highestClass m (Some Class_IV) else m);
          m = (if a ''MR_sev'' = Some ''severe'' \<or> a ''AR_sev'' = Some ''severe''
               then highestClass m (Some Class_III) else m);
          m = (if a ''MR_sev'' = Some ''moderate'' \<or> a ''AR_sev'' = Some ''moderate''
               then highestClass m (Some Class_II_III) else m);
          m = (if a ''MVP_present'' = Some ''yes''
               then (if a ''MR_sev'' = Some ''none/trace'' \<or> a ''MR_sev'' = Some ''mild''
                     then highestClass m (Some Class_I) else m)
               else m);
          (notes, m) =
            (if a ''MechanicalValve'' = Some ''well-controlled''
             then (notes @ [''Mechanical valve on stable anticoagulation''],
                   highestClass m (Some Class_III))
             else (notes, m));
          (notes, m) =
            (if a ''MechanicalValve'' = Some ''unstable/complicated''
             then (notes @ [''Mechanical valve with complications/unstable anticoagulation''],
                   highestClass m (Some Class_III))
             else (notes, m))
      in \<lparr>mwho = m, notes = notes\<rparr>)"

text \<open>\<open>computeCongenital\<close>, lines 145 to 161.\<close>

definition computeCongenital :: "Answers \<Rightarrow> result" where
  "computeCongenital a =
     (let m = None;
          m = (if a ''SimpleRepaired'' = Some ''yes'' then highestClass m (Some Class_I) else m);
          m = (if a ''ASDVSDunoperated'' = Some ''yes''
               then highestClass m (Some Class_II) else m);
          m = (if a ''ToFgood'' = Some ''yes'' then highestClass m (Some Class_II) else m);
          m = (if a ''TGAarterialSwitchGood'' = Some ''yes''
               then highestClass m (Some Class_II) else m);
          m = (if a ''AVSDrepairedGood'' = Some ''yes''
               then highestClass m (Some Class_II_III) else m);
          m = (if a ''Ebstein'' = Some ''uncomplicated''
               then highestClass m (Some Class_II_III) else m);
          m = (if a ''Ebstein'' = Some ''complicated''
               then highestClass m (Some Class_III) else m);
          m = (if a ''SystemicRV'' = Some ''good/mildly-decreased''
               then highestClass m (Some Class_III) else m);
          m = (if a ''SystemicRV'' = Some ''moderate/severely-decreased''
               then highestClass m (Some Class_IV) else m);
          m = (if a ''Fontan'' = Some ''uncomplicated''
               then highestClass m (Some Class_III) else m);
          m = (if a ''Fontan'' = Some ''complicated''
               then highestClass m (Some Class_IV) else m);
          m = (if a ''Cyanotic'' = Some ''unrepaired-non-eisenmenger''
               then highestClass m (Some Class_III) else m);
          m = (if a ''Cyanotic'' = Some ''eisenmenger''
               then highestClass m (Some Class_IV) else m)
      in \<lparr>mwho = m, notes = []\<rparr>)"

text \<open>\<open>computeAortopathy\<close>, lines 163 to 178.\<close>

definition computeAortopathy :: "Answers \<Rightarrow> result" where
  "computeAortopathy a =
     (let m = None; notes = [];
          m = (if a ''NonHTADlt40'' = Some ''yes'' then highestClass m (Some Class_I) else m);
          m = (if a ''TurnerNoCVfeatures'' = Some ''yes''
               then highestClass m (Some Class_II) else m);
          m = (if a ''HTADnoDilation_or_BAVlt45_or_repairedCoA'' = Some ''yes''
               then highestClass m (Some Class_II_III) else m);
          m = (if a ''Marfan40to45'' = Some ''yes'' then highestClass m (Some Class_III) else m);
          m = (if a ''BAV45to50'' = Some ''yes'' then highestClass m (Some Class_III) else m);
          m = (if a ''TurnerASI20to25'' = Some ''yes''
               then highestClass m (Some Class_III) else m);
          m = (if a ''OtherAortaLt50'' = Some ''yes''
               then highestClass m (Some Class_III) else m);
          (m, notes) =
            (if a ''MarfanGt45'' = Some ''yes''
             then (highestClass m (Some Class_IV),
                   notes @ [''Marfan/HTAD aortic diameter >45 mm''])
             else (m, notes));
          (m, notes) =
            (if a ''BAVGt50'' = Some ''yes''
             then (highestClass m (Some Class_IV), notes @ [''BAV aortic diameter >50 mm''])
             else (m, notes));
          (m, notes) =
            (if a ''TurnerASIgt25'' = Some ''yes''
             then (highestClass m (Some Class_IV), notes @ [''Turner ASI >25 mm^2/m''])
             else (m, notes));
          (m, notes) =
            (if a ''SevereRecoA_or_vEDS_or_PriorDissectionGrowing'' = Some ''yes''
             then (highestClass m (Some Class_IV),
                   notes @ [''Severe (re)CoA / vEDS / prior dissection with growth''])
             else (m, notes));
          m = (if a ''PriorDissectionStable'' = Some ''yes''
               then highestClass m (Some Class_III) else m)
      in \<lparr>mwho = m, notes = notes\<rparr>)"

text \<open>\<open>computeArrhythmia\<close>, lines 180 to 188.\<close>

definition computeArrhythmia :: "Answers \<Rightarrow> result" where
  "computeArrhythmia a =
     (let m = None;
          m = (if a ''IsolatedEctopy'' = Some ''yes'' then highestClass m (Some Class_I) else m);
          m = (if a ''SVTorPacemaker'' = Some ''yes''
               then highestClass m (Some Class_II) else m);
          m = (if a ''InheritedLowRisk'' = Some ''yes''
               then highestClass m (Some Class_II_III) else m);
          m = (if a ''InheritedHighRisk'' = Some ''yes''
               then highestClass m (Some Class_III) else m);
          m = (if a ''SustainedVT'' = Some ''yes'' then highestClass m (Some Class_III) else m)
      in \<lparr>mwho = m, notes = []\<rparr>)"

text \<open>\<open>computeCoronaryOther\<close>, lines 190 to 197.\<close>

definition computeCoronaryOther :: "Answers \<Rightarrow> result" where
  "computeCoronaryOther a =
     (let m = None;
          m = (if a ''SCAD'' = Some ''yes'' then highestClass m (Some Class_III) else m);
          m = (if a ''PriorIschaemia'' = Some ''yes''
               then highestClass m (Some Class_III) else m);
          m = (if a ''PriorAPOhosp'' = Some ''yes''
               then highestClass m (Some Class_III) else m);
          m = (if a ''CancerTherapyCVtox'' = Some ''yes''
               then highestClass m (Some Class_III) else m)
      in \<lparr>mwho = m, notes = []\<rparr>)"

subsection \<open>Decision logic, second draft\<close>

text \<open>
  \<open>highestClass\<close>, lines 651 to 654: the order is a local array, and \<open>x || a\<close>
  is \<open>a\<close> when \<open>x\<close> is \<open>undefined\<close>.
\<close>

definition highestClass2 :: "MWHO option \<Rightarrow> MWHO option \<Rightarrow> MWHO option" where
  "highestClass2 a b =
     (case a of None \<Rightarrow> b
      | Some x \<Rightarrow>
         (case b of None \<Rightarrow> a
          | Some y \<Rightarrow>
             (let order = [Class_I, Class_II, Class_II_III, Class_III, Class_IV] in
              case at_index order (max (indexOf order x) (indexOf order y)) of
                Some c \<Rightarrow> Some c
              | None \<Rightarrow> a)))"

text \<open>\<open>computeVentricularPH\<close>, lines 696 to 708.\<close>

definition computeVentricularPH2 :: "Answers \<Rightarrow> result" where
  "computeVentricularPH2 a =
     (let notes = [] in
      if a ''PAH'' = Some ''yes''
      then \<lparr>mwho = Some Class_IV, notes = notes @ [''Pulmonary arterial hypertension'']\<rparr>
      else if a ''LVEF'' = Some ''<30%'' \<or> a ''NYHA'' = Some ''III/IV''
      then \<lparr>mwho = Some Class_IV, notes = notes\<rparr>
      else if a ''LVEF'' = Some (''30'' @ en_dash @ ''45%'')
      then \<lparr>mwho = Some Class_III, notes = notes\<rparr>
      else if a ''LVEF'' = Some ''>45%''
      then
        (if a ''RVfunction'' = Some ''significant''
         then \<lparr>mwho = Some Class_II_III, notes = notes\<rparr>
         else if a ''PPCM'' = Some ''> mild residual''
         then \<lparr>mwho = Some Class_IV,
               notes = notes @ [''PPCM with > mild residual LV impairment'']\<rparr>
         else if a ''PPCM'' = Some (le_sign @ '' mild residual'')
         then \<lparr>mwho = Some Class_III,
               notes = notes @ [''PPCM with '' @ le_sign @ '' mild residual LV impairment'']\<rparr>
         else \<lparr>mwho = Some Class_II_III, notes = notes\<rparr>)
      else \<lparr>mwho = None, notes = notes\<rparr>)"

text \<open>\<open>computeCardiomyopathy\<close>, lines 710 to 721.\<close>

definition computeCardiomyopathy2 :: "Answers \<Rightarrow> result" where
  "computeCardiomyopathy2 a =
     (let picks = [];
          picks = (if a ''HCMgenoPheno'' = Some (''+/'' @ minus_sign)
                   then picks @ [Some Class_I] else picks);
          picks = (if a ''HCMcomp'' = Some ''arrhythmic/moderate-hemodynamic''
                   then picks @ [Some Class_III] else picks);
          picks = (if a ''HCMcomp'' = Some ''severe-LVOT>=50-or-EF<50%''
                   then picks @ [Some Class_IV] else picks);
          picks = (if a ''DCM_EF'' = Some ''>45%''
                   then picks @ [Some Class_II_III] else picks);
          picks = (if a ''DCM_EF'' = Some (''30'' @ en_dash @ ''45%'')
                   then picks @ [Some Class_III] else picks);
          picks = (if a ''DCM_EF'' = Some ''<30%/NYHAIII-IV''
                   then picks @ [Some Class_IV] else picks);
          picks = (if a ''ARVC'' = Some ''low-risk''
                   then picks @ [Some Class_II_III] else picks);
          picks = (if a ''ARVC'' = Some ''moderate/severe''
                   then picks @ [Some Class_III] else picks)
      in \<lparr>mwho = foldl (\<lambda>acc cur. highestClass2 acc cur) None picks, notes = []\<rparr>)"

text \<open>
  \<open>computeValvular\<close>, lines 723 to 755. \<open>!a.MR_sev\<close> holds when the property is
  \<open>undefined\<close> or the empty string.
\<close>

definition computeValvular2 :: "Answers \<Rightarrow> result" where
  "computeValvular2 a =
     (let m = None; notes = [];
          m = (if a ''PS_sev'' = Some ''mild'' then highestClass2 m (Some Class_I) else m);
          (m, notes) =
            (if a ''PS_sev'' = Some ''moderate/severe''
             then (highestClass2 m (Some Class_II_III),
                   notes @ [''Moderate/severe PS '' @ em_dash @ '' confirm gradients & RV pressure''])
             else (m, notes));
          m = (if a ''MS'' = Some ''moderate'' then highestClass2 m (Some Class_III) else m);
          m = (if a ''MS'' = Some ''severe'' then highestClass2 m (Some Class_IV) else m);
          m = (if a ''AS'' = Some ''severe-asymptomatic''
               then highestClass2 m (Some Class_III) else m);
          m = (if a ''AS'' = Some ''severe-symptomatic''
               then highestClass2 m (Some Class_IV) else m);
          m = (if a ''MR_sev'' = Some ''severe'' \<or> a ''AR_sev'' = Some ''severe''
               then highestClass2 m (Some Class_III) else m);
          m = (if a ''MR_sev'' = Some ''moderate'' \<or> a ''AR_sev'' = Some ''moderate''
               then highestClass2 m (Some Class_II_III) else m);
          (m, notes) =
            (if a ''MVP_present'' = Some ''yes''
             then (if a ''MR_sev'' = Some ''none/trace'' \<or> a ''MR_sev'' = Some ''mild''
                   then (highestClass2 m (Some Class_I), notes)
                   else if (a ''MR_sev'' = None \<or> a ''MR_sev'' = Some [])
                           \<or> a ''MR_sev'' = Some ''unknown''
                   then (m, notes @ [''MVP present but MR severity unknown '' @ em_dash
                                     @ '' cannot assume class I''])
                   else (m, notes))
             else (m, notes));
          (notes, m) =
            (if a ''MechanicalValve'' = Some ''well-controlled''
             then (notes @ [''Mechanical valve on stable anticoagulation''],
                   highestClass2 m (Some Class_III))
             else (notes, m));
          (notes, m) =
            (if a ''MechanicalValve'' = Some ''unstable/complicated''
             then (notes @ [''Mechanical valve with complications/unstable anticoagulation''],
                   highestClass2 m (Some Class_III))
             else (notes, m))
      in \<lparr>mwho = m, notes = notes\<rparr>)"

text \<open>\<open>computeCongenital\<close>, lines 757 to 773.\<close>

definition computeCongenital2 :: "Answers \<Rightarrow> result" where
  "computeCongenital2 a =
     (let m = None; notes = [];
          m = (if a ''SimpleRepaired'' = Some ''yes'' then highestClass2 m (Some Class_I) else m);
          m = (if a ''ASDVSDunoperated'' = Some ''yes''
               then highestClass2 m (Some Class_II) else m);
          m = (if a ''ToFgood'' = Some ''yes'' then highestClass2 m (Some Class_II) else m);
          m = (if a ''TGAarterialSwitchGood'' = Some ''yes''
               then highestClass2 m (Some Class_II) else m);
          m = (if a ''AVSDrepairedGood'' = Some ''yes''
               then highestClass2 m (Some Class_II_III) else m);
          m = (if a ''Ebstein'' = Some ''uncomplicated''
               then highestClass2 m (Some Class_II_III) else m);
          m = (if a ''Ebstein'' = Some ''complicated''
               then highestClass2 m (Some Class_III) else m);
          m = (if a ''SystemicRV'' = Some (''good/mildly'' @ down_arrow)
               then highestClass2 m (Some Class_III) else m);
          m = (if a ''SystemicRV'' = Some (''moderate/severely'' @ down_arrow)
               then highestClass2 m (Some Class_IV) else m);
          m = (if a ''Fontan'' = Some ''uncomplicated''
               then highestClass2 m (Some Class_III) else m);
          m = (if a ''Fontan'' = Some ''complicated''
               then highestClass2 m (Some Class_IV) else m);
          m = (if a ''Cyanotic'' = Some ''unrepaired-non-eisenmenger''
               then highestClass2 m (Some Class_III) else m);
          m = (if a ''Cyanotic'' = Some ''eisenmenger''
               then highestClass2 m (Some Class_IV) else m)
      in \<lparr>mwho = m, notes = notes\<rparr>)"

text \<open>\<open>computeAortopathy\<close>, lines 775 to 790.\<close>

definition computeAortopathy2 :: "Answers \<Rightarrow> result" where
  "computeAortopathy2 a =
     (let m = None; notes = [];
          m = (if a ''NonHTADlt40'' = Some ''yes'' then highestClass2 m (Some Class_I) else m);
          m = (if a ''TurnerNoCVfeatures'' = Some ''yes''
               then highestClass2 m (Some Class_II) else m);
          m = (if a ''HTADnoDilation_or_BAVlt45_or_repairedCoA'' = Some ''yes''
               then highestClass2 m (Some Class_II_III) else m);
          m = (if a ''Marfan40to45'' = Some ''yes''
               then highestClass2 m (Some Class_III) else m);
          m = (if a ''BAV45to50'' = Some ''yes'' then highestClass2 m (Some Class_III) else m);
          m = (if a ''TurnerASI20to25'' = Some ''yes''
               then highestClass2 m (Some Class_III) else m);
          m = (if a ''OtherAortaLt50'' = Some ''yes''
               then highestClass2 m (Some Class_III) else m);
          (m, notes) =
            (if a ''MarfanGt45'' = Some ''yes''
             then (highestClass2 m (Some Class_IV),
                   notes @ [''Severe Marfan/HTAD aortic dilation >45 mm''])
             else (m, notes));
          (m, notes) =
            (if a ''BAVGt50'' = Some ''yes''
             then (highestClass2 m (Some Class_IV),
                   notes @ [''Severe BAV aortic dilation >50 mm''])
             else (m, notes));
          (m, notes) =
            (if a ''TurnerASIgt25'' = Some ''yes''
             then (highestClass2 m (Some Class_IV),
                   notes @ [''Turner ASI >25 mm'' @ superscript_two @ ''/m''])
             else (m, notes));
          (m, notes) =
            (if a ''SevereRecoA_or_vEDS_or_PriorDissectionGrowing'' = Some ''yes''
             then (highestClass2 m (Some Class_IV),
                   notes @ [''Severe (re)CoA / vascular EDS / prior dissection with growth''])
             else (m, notes));
          m = (if a ''PriorDissectionStable'' = Some ''yes''
               then highestClass2 m (Some Class_III) else m)
      in \<lparr>mwho = m, notes = notes\<rparr>)"

text \<open>\<open>computeArrhythmia\<close>, lines 792 to 800.\<close>

definition computeArrhythmia2 :: "Answers \<Rightarrow> result" where
  "computeArrhythmia2 a =
     (let m = None; notes = [];
          m = (if a ''IsolatedEctopy'' = Some ''yes'' then highestClass2 m (Some Class_I) else m);
          m = (if a ''SVTorPacemaker'' = Some ''yes''
               then highestClass2 m (Some Class_II) else m);
          m = (if a ''InheritedLowRisk'' = Some ''yes''
               then highestClass2 m (Some Class_II_III) else m);
          m = (if a ''InheritedHighRisk'' = Some ''yes''
               then highestClass2 m (Some Class_III) else m);
          m = (if a ''SustainedVT'' = Some ''yes''
               then highestClass2 m (Some Class_III) else m)
      in \<lparr>mwho = m, notes = notes\<rparr>)"

text \<open>\<open>computeCoronaryOther\<close>, lines 802 to 809.\<close>

definition computeCoronaryOther2 :: "Answers \<Rightarrow> result" where
  "computeCoronaryOther2 a =
     (let m = None; notes = [];
          m = (if a ''SCAD'' = Some ''yes'' then highestClass2 m (Some Class_III) else m);
          m = (if a ''PriorIschaemia'' = Some ''yes''
               then highestClass2 m (Some Class_III) else m);
          m = (if a ''PriorAPOhosp'' = Some ''yes''
               then highestClass2 m (Some Class_III) else m);
          m = (if a ''CancerTherapyCVtox'' = Some ''yes''
               then highestClass2 m (Some Class_III) else m)
      in \<lparr>mwho = m, notes = notes\<rparr>)"

subsection \<open>Decision logic, third draft\<close>

text \<open>
  \<open>highestClass\<close>, lines 1224 to 1229: the element read from \<open>order\<close> is returned
  as it is, \<open>undefined\<close> (here \<open>None\<close>) when the index is out of range.
\<close>

definition highestClass3 :: "MWHO option \<Rightarrow> MWHO option \<Rightarrow> MWHO option" where
  "highestClass3 a b =
     (case a of None \<Rightarrow> b
      | Some x \<Rightarrow>
         (case b of None \<Rightarrow> a
          | Some y \<Rightarrow>
             (let order = [Class_I, Class_II, Class_II_III, Class_III, Class_IV] in
              at_index order (max (indexOf order x) (indexOf order y)))))"

text \<open>\<open>computeVentricularPH\<close>, lines 1249 to 1279.\<close>

definition computeVentricularPH3 :: "Answers \<Rightarrow> result" where
  "computeVentricularPH3 answers =
     (let notes = [] in
      if answers ''PAH'' = Some ''yes''
      then \<lparr>mwho = Some Class_IV, notes = notes @ [''Pulmonary arterial hypertension'']\<rparr>
      else if answers ''LVEF'' = Some ''<30%'' \<or> answers ''NYHA'' = Some ''III/IV''
      then \<lparr>mwho = Some Class_IV, notes = notes\<rparr>
      else if answers ''LVEF'' = Some (''30'' @ en_dash @ ''45%'')
      then \<lparr>mwho = Some Class_III, notes = notes\<rparr>
      else if answers ''LVEF'' = Some ''>45%''
      then
        (if answers ''RVfunction'' = Some ''significant''
         then \<lparr>mwho = Some Class_II_III, notes = notes\<rparr>
         else if answers ''PPCM'' = Some ''> mild residual''
         then \<lparr>mwho = Some Class_IV,
               notes = notes @ [''PPCM with > mild residual LV impairment'']\<rparr>
         else if answers ''PPCM'' = Some (le_sign @ '' mild residual'')
         then \<lparr>mwho = Some Class_III,
               notes = notes @ [''PPCM with '' @ le_sign @ '' mild residual LV impairment'']\<rparr>
         else \<lparr>mwho = Some Class_II_III, notes = notes\<rparr>)
      else \<lparr>mwho = None, notes = notes\<rparr>)"

text \<open>\<open>computeValvular\<close>, lines 1301 to 1328.\<close>

definition computeValvular3 :: "Answers \<Rightarrow> result" where
  "computeValvular3 answers =
     (let notes = []; mwho = None;
          mwho = (if answers ''PS'' = Some ''small/mild''
                  then highestClass3 mwho (Some Class_I) else mwho);
          mwho = (if answers ''MVP'' = Some ''no-sig-MR''
                  then highestClass3 mwho (Some Class_I) else mwho);
          mwho = (if answers ''MS'' = Some ''moderate''
                  then highestClass3 mwho (Some Class_III) else mwho);
          mwho = (if answers ''MS'' = Some ''severe''
                  then highestClass3 mwho (Some Class_IV) else mwho);
          mwho = (if answers ''AS'' = Some ''severe-asymptomatic''
                  then highestClass3 mwho (Some Class_III) else mwho);
          mwho = (if answers ''AS'' = Some ''severe-symptomatic''
                  then highestClass3 mwho (Some Class_IV) else mwho);
          mwho = (if answers ''LeftRegurg'' = Some ''severe''
                  then highestClass3 mwho (Some Class_III) else mwho);
          mwho = (if answers ''NativeTissue'' = Some ''mild-MS/mod-AS/mod-regurg''
                  then highestClass3 mwho (Some Class_II_III) else mwho);
          (notes, mwho) =
            (if answers ''MechanicalValve'' = Some ''well-controlled''
             then (notes @ [''Mechanical valve on stable anticoagulation''],
                   highestClass3 mwho (Some Class_III))
             else (notes, mwho));
          (notes, mwho) =
            (if answers ''MechanicalValve'' = Some ''unstable/complicated''
             then (notes @ [''Mechanical valve with complications/unstable anticoagulation''],
                   highestClass3 mwho (Some Class_III))
             else (notes, mwho))
      in \<lparr>mwho = mwho, notes = notes\<rparr>)"

subsection \<open>The component's state\<close>

text \<open>
  \<open>App\<close> holds two state cells, \<open>useState<Group | null>(null)\<close> and
  \<open>useState<Answers>({})\<close>. A handler is embedded as the function from the state
  before the event to the state after it: the calls of the setters that a
  handler makes are applied in the order the handler makes them.
  \<open>setAnswers\<close> is given an updater; \<open>setAnswers({})\<close> is the constant updater.
\<close>

datatype Group =
  Ventricular_PH_PPCM | Cardiomyopathy | Valvular | Congenital
  | Aortopathy | Arrhythmia | Coronary_Other

record App_state =
  group :: "Group option"
  answers :: Answers

definition initial_state :: App_state where
  "initial_state = \<lparr>group = None, answers = Map.empty\<rparr>"

definition setGroup :: "Group option \<Rightarrow> App_state \<Rightarrow> App_state" where
  "setGroup g s = s\<lparr>group := g\<rparr>"

definition setAnswers :: "(Answers \<Rightarrow> Answers) \<Rightarrow> App_state \<Rightarrow> App_state" where
  "setAnswers f s = s\<lparr>answers := f (answers s)\<rparr>"

text \<open>Line 486: \<^verbatim>\<open>const set = (k, v) => setAnswers(a => ({ ...a, [k]: v }))\<close>.\<close>

definition set_answer :: "string \<Rightarrow> string \<Rightarrow> App_state \<Rightarrow> App_state" where
  "set_answer k v s = setAnswers (\<lambda>a. a(k \<mapsto> v)) s"

text \<open>Line 524, the group button: \<^verbatim>\<open>onClick={() => { setGroup(g); setAnswers({}); }}\<close>.\<close>

definition onClick_group :: "Group \<Rightarrow> App_state \<Rightarrow> App_state" where
  "onClick_group g s = setAnswers (\<lambda>_. Map.empty) (setGroup (Some g) s)"

text \<open>Line 582, the reset button: \<^verbatim>\<open>onClick={() => { setGroup(null); setAnswers({}); }}\<close>.\<close>

definition onReset :: "App_state \<Rightarrow> App_state" where
  "onReset s = setAnswers (\<lambda>_. Map.empty) (setGroup None s)"

text \<open>\<open>computed\<close>, lines 488 to 499.\<close>

definition computed :: "App_state \<Rightarrow> result" where
  "computed s =
     (case group s of
        None \<Rightarrow> \<lparr>mwho = None, notes = []\<rparr>
      | Some Ventricular_PH_PPCM \<Rightarrow> computeVentricularPH (answers s)
      | Some Cardiomyopathy \<Rightarrow> computeCardiomyopathy (answers s)
      | Some Valvular \<Rightarrow> computeValvular (answers s)
      | Some Congenital \<Rightarrow> computeCongenital (answers s)
      | Some Aortopathy \<Rightarrow> computeAortopathy (answers s)
      | Some Arrhythmia \<Rightarrow> computeArrhythmia (answers s)
      | Some Coronary_Other \<Rightarrow> computeCoronaryOther (answers s))"

text \<open>
  The second and the third draft have the same two cells, the same \<open>set\<close> and
  the same \<open>onReset\<close>; the handler of the group button differs, and \<open>computed\<close>
  of each draft calls the decision functions of its own draft.
\<close>

text \<open>Line 1052, the group button: \<^verbatim>\<open>onClick={()=>setGroup(g)}\<close>.\<close>

definition onClick_group2 :: "Group \<Rightarrow> App_state \<Rightarrow> App_state" where
  "onClick_group2 g s = setGroup (Some g) s"

text \<open>
  \<open>computed\<close> of the second draft, lines 1005 to 1017. Its \<open>default\<close> branch
  is for a group that is none of the seven, and \<open>Group\<close> has no such value.
\<close>

definition computed2 :: "App_state \<Rightarrow> result" where
  "computed2 s =
     (case group s of
        None \<Rightarrow> \<lparr>mwho = None, notes = []\<rparr>
      | Some Ventricular_PH_PPCM \<Rightarrow> computeVentricularPH2 (answers s)
      | Some Cardiomyopathy \<Rightarrow> computeCardiomyopathy2 (answers s)
      | Some Valvular \<Rightarrow> computeValvular2 (answers s)
      | Some Congenital \<Rightarrow> computeCongenital2 (answers s)
      | Some Aortopathy \<Rightarrow> computeAortopathy2 (answers s)
      | Some Arrhythmia \<Rightarrow> computeArrhythmia2 (answers s)
      | Some Coronary_Other \<Rightarrow> computeCoronaryOther2 (answers s))"

text \<open>
  Line 1623, the group button of the third draft: \<^verbatim>\<open>onClick={()=> setGroup(g)}\<close>.
  Of the state of the third draft only this handler is embedded.
\<close>

definition onClick_group3 :: "Group \<Rightarrow> App_state \<Rightarrow> App_state" where
  "onClick_group3 g s = setGroup (Some g) s"

subsection \<open>The conditions of the decision functions\<close>

text \<open>
  For each function of the first draft, the conditions of its \<open>if\<close> statements
  at the top level of the function body, in the order of the source, read on an
  Answer Set. A guard of the function matches when its condition holds.
\<close>

definition guards_VentricularPH :: "Answers \<Rightarrow> bool list" where
  "guards_VentricularPH a =
     [a ''PAH'' = Some ''yes'',
      a ''LVEF'' = Some ''<30%'' \<or> a ''NYHA'' = Some ''III/IV'',
      a ''LVEF'' = Some (''30'' @ en_dash @ ''45%''),
      a ''LVEF'' = Some ''>45%'']"

definition guards_Cardiomyopathy :: "Answers \<Rightarrow> bool list" where
  "guards_Cardiomyopathy a =
     [a ''HCMgenoPheno'' = Some (''+/'' @ minus_sign),
      a ''HCMcomp'' = Some ''arrhythmic/moderate-hemodynamic'',
      a ''HCMcomp'' = Some ''severe-LVOT>=50-or-EF<50%'',
      a ''DCM_EF'' = Some ''>45%'',
      a ''DCM_EF'' = Some (''30'' @ en_dash @ ''45%''),
      a ''DCM_EF'' = Some ''<30%/NYHAIII-IV'',
      a ''ARVC'' = Some ''low-risk'',
      a ''ARVC'' = Some ''moderate/severe'']"

text \<open>
  The guard on \<open>MVP_present\<close> encloses a second \<open>if\<close> and does nothing else; its
  condition is taken together with the enclosed one.
\<close>

definition guards_Valvular :: "Answers \<Rightarrow> bool list" where
  "guards_Valvular a =
     [a ''PS_sev'' = Some ''mild'',
      a ''PS_sev'' = Some ''moderate/severe'',
      a ''MS'' = Some ''moderate'',
      a ''MS'' = Some ''severe'',
      a ''AS'' = Some ''severe-asymptomatic'',
      a ''AS'' = Some ''severe-symptomatic'',
      a ''MR_sev'' = Some ''severe'' \<or> a ''AR_sev'' = Some ''severe'',
      a ''MR_sev'' = Some ''moderate'' \<or> a ''AR_sev'' = Some ''moderate'',
      a ''MVP_present'' = Some ''yes''
        \<and> (a ''MR_sev'' = Some ''none/trace'' \<or> a ''MR_sev'' = Some ''mild''),
      a ''MechanicalValve'' = Some ''well-controlled'',
      a ''MechanicalValve'' = Some ''unstable/complicated'']"

definition guards_Congenital :: "Answers \<Rightarrow> bool list" where
  "guards_Congenital a =
     [a ''SimpleRepaired'' = Some ''yes'',
      a ''ASDVSDunoperated'' = Some ''yes'',
      a ''ToFgood'' = Some ''yes'',
      a ''TGAarterialSwitchGood'' = Some ''yes'',
      a ''AVSDrepairedGood'' = Some ''yes'',
      a ''Ebstein'' = Some ''uncomplicated'',
      a ''Ebstein'' = Some ''complicated'',
      a ''SystemicRV'' = Some ''good/mildly-decreased'',
      a ''SystemicRV'' = Some ''moderate/severely-decreased'',
      a ''Fontan'' = Some ''uncomplicated'',
      a ''Fontan'' = Some ''complicated'',
      a ''Cyanotic'' = Some ''unrepaired-non-eisenmenger'',
      a ''Cyanotic'' = Some ''eisenmenger'']"

definition guards_Aortopathy :: "Answers \<Rightarrow> bool list" where
  "guards_Aortopathy a =
     [a ''NonHTADlt40'' = Some ''yes'',
      a ''TurnerNoCVfeatures'' = Some ''yes'',
      a ''HTADnoDilation_or_BAVlt45_or_repairedCoA'' = Some ''yes'',
      a ''Marfan40to45'' = Some ''yes'',
      a ''BAV45to50'' = Some ''yes'',
      a ''TurnerASI20to25'' = Some ''yes'',
      a ''OtherAortaLt50'' = Some ''yes'',
      a ''MarfanGt45'' = Some ''yes'',
      a ''BAVGt50'' = Some ''yes'',
      a ''TurnerASIgt25'' = Some ''yes'',
      a ''SevereRecoA_or_vEDS_or_PriorDissectionGrowing'' = Some ''yes'',
      a ''PriorDissectionStable'' = Some ''yes'']"

definition guards_Arrhythmia :: "Answers \<Rightarrow> bool list" where
  "guards_Arrhythmia a =
     [a ''IsolatedEctopy'' = Some ''yes'',
      a ''SVTorPacemaker'' = Some ''yes'',
      a ''InheritedLowRisk'' = Some ''yes'',
      a ''InheritedHighRisk'' = Some ''yes'',
      a ''SustainedVT'' = Some ''yes'']"

definition guards_CoronaryOther :: "Answers \<Rightarrow> bool list" where
  "guards_CoronaryOther a =
     [a ''SCAD'' = Some ''yes'',
      a ''PriorIschaemia'' = Some ''yes'',
      a ''PriorAPOhosp'' = Some ''yes'',
      a ''CancerTherapyCVtox'' = Some ''yes'']"

definition no_guard_matches :: "bool list \<Rightarrow> bool" where
  "no_guard_matches gs = (\<forall>g \<in> set gs. \<not> g)"

subsection \<open>The classes of the guards\<close>

text \<open>
  For \<open>computeCardiomyopathy\<close> and \<open>computeValvular\<close> of the first draft, the class
  that each guard pushes or passes to \<open>highestClass\<close>, in the order of the
  guards. \<open>matching gs cs\<close> are the classes, among \<open>cs\<close>, of the guards that
  hold among \<open>gs\<close>, in their order. \<open>rank\<close> is the position in \<open>ORDER\<close>, with
  \<open>null\<close> below every class.
\<close>

definition classes_Cardiomyopathy :: "MWHO option list" where
  "classes_Cardiomyopathy =
     [Some Class_I, Some Class_III, Some Class_IV, Some Class_II_III,
      Some Class_III, Some Class_IV, Some Class_II_III, Some Class_III]"

definition classes_Valvular :: "MWHO option list" where
  "classes_Valvular =
     [Some Class_I, Some Class_II_III, Some Class_III, Some Class_IV,
      Some Class_III, Some Class_IV, Some Class_III, Some Class_II_III,
      Some Class_I, Some Class_III, Some Class_III]"

definition matching :: "bool list \<Rightarrow> 'a list \<Rightarrow> 'a list" where
  "matching gs cs = map snd (filter fst (zip gs cs))"

definition rank :: "MWHO option \<Rightarrow> int" where
  "rank m = (case m of None \<Rightarrow> - 1 | Some c \<Rightarrow> indexOf ORDER c)"

subsection \<open>Decision logic, first draft, on a store\<close>

text \<open>
  The same seven functions, lines 93 to 197, with the objects they reach held
  in a store, so that what a call writes is visible. The store holds the
  \<open>Answers\<close> objects, the arrays of classes (\<open>ORDER\<close>, which is allocated when
  the module is loaded, and \<open>picks\<close>) and the arrays of strings (\<open>notes\<close>). An
  array literal allocates the next free address, where the source has it: at
  the declaration \<open>const notes = []\<close>, or in the returned object for
  \<open>notes: []\<close>. \<open>push\<close> writes the array at the address it is given. A function
  takes the address of the Answer Set; the object it returns is the pair of
  its class and of the address of its \<open>notes\<close> array.
\<close>

type_synonym addr = nat

record store =
  answer_sets :: "addr \<Rightarrow> Answers"
  class_arrays :: "addr \<Rightarrow> MWHO option list"
  string_arrays :: "addr \<Rightarrow> string list"
  next_addr :: addr

definition ORDER_addr :: addr where
  "ORDER_addr = 0"

definition new_class_array :: "store \<Rightarrow> addr \<times> store" where
  "new_class_array s =
     (next_addr s,
      s\<lparr>class_arrays := (class_arrays s)(next_addr s := []), next_addr := Suc (next_addr s)\<rparr>)"

definition new_string_array :: "store \<Rightarrow> addr \<times> store" where
  "new_string_array s =
     (next_addr s,
      s\<lparr>string_arrays := (string_arrays s)(next_addr s := []), next_addr := Suc (next_addr s)\<rparr>)"

definition push_class :: "addr \<Rightarrow> MWHO option \<Rightarrow> store \<Rightarrow> store" where
  "push_class p v s = s\<lparr>class_arrays := (class_arrays s)(p := class_arrays s p @ [v])\<rparr>"

definition push_string :: "addr \<Rightarrow> string \<Rightarrow> store \<Rightarrow> store" where
  "push_string p v s = s\<lparr>string_arrays := (string_arrays s)(p := string_arrays s p @ [v])\<rparr>"

text \<open>\<open>highestClass\<close> reads the array \<open>ORDER\<close> in the store.\<close>

definition highestClass_st :: "store \<Rightarrow> MWHO option \<Rightarrow> MWHO option \<Rightarrow> MWHO option" where
  "highestClass_st s a b =
     (case a of None \<Rightarrow> b
      | Some x \<Rightarrow>
         (case b of None \<Rightarrow> a
          | Some y \<Rightarrow>
             (let order = class_arrays s ORDER_addr in
              case at_index order (max (indexOf order a) (indexOf order b)) of
                Some (Some c) \<Rightarrow> Some c
              | _ \<Rightarrow> a)))"

definition computeVentricularPH_st :: "addr \<Rightarrow> store \<Rightarrow> (MWHO option \<times> addr) \<times> store" where
  "computeVentricularPH_st a s =
     (let (notes, s) = new_string_array s in
      if answer_sets s a ''PAH'' = Some ''yes''
      then ((Some Class_IV, notes), push_string notes ''Pulmonary arterial hypertension'' s)
      else if answer_sets s a ''LVEF'' = Some ''<30%'' \<or> answer_sets s a ''NYHA'' = Some ''III/IV''
      then ((Some Class_IV, notes), s)
      else if answer_sets s a ''LVEF'' = Some (''30'' @ en_dash @ ''45%'')
      then ((Some Class_III, notes), s)
      else if answer_sets s a ''LVEF'' = Some ''>45%''
      then
        (if answer_sets s a ''RVfunction'' = Some ''significant''
         then ((Some Class_II_III, notes), s)
         else if answer_sets s a ''PPCM'' = Some ''> mild residual''
         then ((Some Class_IV, notes),
               push_string notes ''PPCM with > mild residual LV impairment'' s)
         else if answer_sets s a ''PPCM'' = Some (le_sign @ '' mild residual'')
         then ((Some Class_III, notes),
               push_string notes (''PPCM with '' @ le_sign @ '' mild residual LV impairment'') s)
         else ((Some Class_II_III, notes), s))
      else ((None, notes), s))"

definition computeCardiomyopathy_st :: "addr \<Rightarrow> store \<Rightarrow> (MWHO option \<times> addr) \<times> store" where
  "computeCardiomyopathy_st a s =
     (let (picks, s) = new_class_array s;
          s = (if answer_sets s a ''HCMgenoPheno'' = Some (''+/'' @ minus_sign)
               then push_class picks (Some Class_I) s else s);
          s = (if answer_sets s a ''HCMcomp'' = Some ''arrhythmic/moderate-hemodynamic''
               then push_class picks (Some Class_III) s else s);
          s = (if answer_sets s a ''HCMcomp'' = Some ''severe-LVOT>=50-or-EF<50%''
               then push_class picks (Some Class_IV) s else s);
          s = (if answer_sets s a ''DCM_EF'' = Some ''>45%''
               then push_class picks (Some Class_II_III) s else s);
          s = (if answer_sets s a ''DCM_EF'' = Some (''30'' @ en_dash @ ''45%'')
               then push_class picks (Some Class_III) s else s);
          s = (if answer_sets s a ''DCM_EF'' = Some ''<30%/NYHAIII-IV''
               then push_class picks (Some Class_IV) s else s);
          s = (if answer_sets s a ''ARVC'' = Some ''low-risk''
               then push_class picks (Some Class_II_III) s else s);
          s = (if answer_sets s a ''ARVC'' = Some ''moderate/severe''
               then push_class picks (Some Class_III) s else s);
          mwho = foldl (\<lambda>acc cur. highestClass_st s acc cur) None (class_arrays s picks);
          (notes, s) = new_string_array s
      in ((mwho, notes), s))"

definition computeValvular_st :: "addr \<Rightarrow> store \<Rightarrow> (MWHO option \<times> addr) \<times> store" where
  "computeValvular_st a s =
     (let m = None; (notes, s) = new_string_array s;
          m = (if answer_sets s a ''PS_sev'' = Some ''mild''
               then highestClass_st s m (Some Class_I) else m);
          (m, s) =
            (if answer_sets s a ''PS_sev'' = Some ''moderate/severe''
             then (highestClass_st s m (Some Class_II_III),
                   push_string notes
                     (''Moderate/severe PS '' @ em_dash @ '' confirm gradients and RV pressure'') s)
             else (m, s));
          m = (if answer_sets s a ''MS'' = Some ''moderate''
               then highestClass_st s m (Some Class_III) else m);
          m = (if answer_sets s a ''MS'' = Some ''severe''
               then highestClass_st s m (Some Class_IV) else m);
          m = (if answer_sets s a ''AS'' = Some ''severe-asymptomatic''
               then highestClass_st s m (Some Class_III) else m);
          m = (if answer_sets s a ''AS'' = Some ''severe-symptomatic''
               then highestClass_st s m (Some Class_IV) else m);
          m = (if answer_sets s a ''MR_sev'' = Some ''severe''
                  \<or> answer_sets s a ''AR_sev'' = Some ''severe''
               then highestClass_st s m (Some Class_III) else m);
          m = (if answer_sets s a ''MR_sev'' = Some ''moderate''
                  \<or> answer_sets s a ''AR_sev'' = Some ''moderate''
               then highestClass_st s m (Some Class_II_III) else m);
          m = (if answer_sets s a ''MVP_present'' = Some ''yes''
               then (if answer_sets s a ''MR_sev'' = Some ''none/trace''
                        \<or> answer_sets s a ''MR_sev'' = Some ''mild''
                     then highestClass_st s m (Some Class_I) else m)
               else m);
          (s, m) =
            (if answer_sets s a ''MechanicalValve'' = Some ''well-controlled''
             then (push_string notes ''Mechanical valve on stable anticoagulation'' s,
                   highestClass_st s m (Some Class_III))
             else (s, m));
          (s, m) =
            (if answer_sets s a ''MechanicalValve'' = Some ''unstable/complicated''
             then (push_string notes
                     ''Mechanical valve with complications/unstable anticoagulation'' s,
                   highestClass_st s m (Some Class_III))
             else (s, m))
      in ((m, notes), s))"

definition computeCongenital_st :: "addr \<Rightarrow> store \<Rightarrow> (MWHO option \<times> addr) \<times> store" where
  "computeCongenital_st a s =
     (let m = None;
          m = (if answer_sets s a ''SimpleRepaired'' = Some ''yes''
               then highestClass_st s m (Some Class_I) else m);
          m = (if answer_sets s a ''ASDVSDunoperated'' = Some ''yes''
               then highestClass_st s m (Some Class_II) else m);
          m = (if answer_sets s a ''ToFgood'' = Some ''yes''
               then highestClass_st s m (Some Class_II) else m);
          m = (if answer_sets s a ''TGAarterialSwitchGood'' = Some ''yes''
               then highestClass_st s m (Some Class_II) else m);
          m = (if answer_sets s a ''AVSDrepairedGood'' = Some ''yes''
               then highestClass_st s m (Some Class_II_III) else m);
          m = (if answer_sets s a ''Ebstein'' = Some ''uncomplicated''
               then highestClass_st s m (Some Class_II_III) else m);
          m = (if answer_sets s a ''Ebstein'' = Some ''complicated''
               then highestClass_st s m (Some Class_III) else m);
          m = (if answer_sets s a ''SystemicRV'' = Some ''good/mildly-decreased''
               then highestClass_st s m (Some Class_III) else m);
          m = (if answer_sets s a ''SystemicRV'' = Some ''moderate/severely-decreased''
               then highestClass_st s m (Some Class_IV) else m);
          m = (if answer_sets s a ''Fontan'' = Some ''uncomplicated''
               then highestClass_st s m (Some Class_III) else m);
          m = (if answer_sets s a ''Fontan'' = Some ''complicated''
               then highestClass_st s m (Some Class_IV) else m);
          m = (if answer_sets s a ''Cyanotic'' = Some ''unrepaired-non-eisenmenger''
               then highestClass_st s m (Some Class_III) else m);
          m = (if answer_sets s a ''Cyanotic'' = Some ''eisenmenger''
               then highestClass_st s m (Some Class_IV) else m);
          (notes, s) = new_string_array s
      in ((m, notes), s))"

definition computeAortopathy_st :: "addr \<Rightarrow> store \<Rightarrow> (MWHO option \<times> addr) \<times> store" where
  "computeAortopathy_st a s =
     (let m = None; (notes, s) = new_string_array s;
          m = (if answer_sets s a ''NonHTADlt40'' = Some ''yes''
               then highestClass_st s m (Some Class_I) else m);
          m = (if answer_sets s a ''TurnerNoCVfeatures'' = Some ''yes''
               then highestClass_st s m (Some Class_II) else m);
          m = (if answer_sets s a ''HTADnoDilation_or_BAVlt45_or_repairedCoA'' = Some ''yes''
               then highestClass_st s m (Some Class_II_III) else m);
          m = (if answer_sets s a ''Marfan40to45'' = Some ''yes''
               then highestClass_st s m (Some Class_III) else m);
          m = (if answer_sets s a ''BAV45to50'' = Some ''yes''
               then highestClass_st s m (Some Class_III) else m);
          m = (if answer_sets s a ''TurnerASI20to25'' = Some ''yes''
               then highestClass_st s m (Some Class_III) else m);
          m = (if answer_sets s a ''OtherAortaLt50'' = Some ''yes''
               then highestClass_st s m (Some Class_III) else m);
          (m, s) =
            (if answer_sets s a ''MarfanGt45'' = Some ''yes''
             then (highestClass_st s m (Some Class_IV),
                   push_string notes ''Marfan/HTAD aortic diameter >45 mm'' s)
             else (m, s));
          (m, s) =
            (if answer_sets s a ''BAVGt50'' = Some ''yes''
             then (highestClass_st s m (Some Class_IV),
                   push_string notes ''BAV aortic diameter >50 mm'' s)
             else (m, s));
          (m, s) =
            (if answer_sets s a ''TurnerASIgt25'' = Some ''yes''
             then (highestClass_st s m (Some Class_IV),
                   push_string notes ''Turner ASI >25 mm^2/m'' s)
             else (m, s));
          (m, s) =
            (if answer_sets s a ''SevereRecoA_or_vEDS_or_PriorDissectionGrowing'' = Some ''yes''
             then (highestClass_st s m (Some Class_IV),
                   push_string notes ''Severe (re)CoA / vEDS / prior dissection with growth'' s)
             else (m, s));
          m = (if answer_sets s a ''PriorDissectionStable'' = Some ''yes''
               then highestClass_st s m (Some Class_III) else m)
      in ((m, notes), s))"

definition computeArrhythmia_st :: "addr \<Rightarrow> store \<Rightarrow> (MWHO option \<times> addr) \<times> store" where
  "computeArrhythmia_st a s =
     (let m = None;
          m = (if answer_sets s a ''IsolatedEctopy'' = Some ''yes''
               then highestClass_st s m (Some Class_I) else m);
          m = (if answer_sets s a ''SVTorPacemaker'' = Some ''yes''
               then highestClass_st s m (Some Class_II) else m);
          m = (if answer_sets s a ''InheritedLowRisk'' = Some ''yes''
               then highestClass_st s m (Some Class_II_III) else m);
          m = (if answer_sets s a ''InheritedHighRisk'' = Some ''yes''
               then highestClass_st s m (Some Class_III) else m);
          m = (if answer_sets s a ''SustainedVT'' = Some ''yes''
               then highestClass_st s m (Some Class_III) else m);
          (notes, s) = new_string_array s
      in ((m, notes), s))"

definition computeCoronaryOther_st :: "addr \<Rightarrow> store \<Rightarrow> (MWHO option \<times> addr) \<times> store" where
  "computeCoronaryOther_st a s =
     (let m = None;
          m = (if answer_sets s a ''SCAD'' = Some ''yes''
               then highestClass_st s m (Some Class_III) else m);
          m = (if answer_sets s a ''PriorIschaemia'' = Some ''yes''
               then highestClass_st s m (Some Class_III) else m);
          m = (if answer_sets s a ''PriorAPOhosp'' = Some ''yes''
               then highestClass_st s m (Some Class_III) else m);
          m = (if answer_sets s a ''CancerTherapyCVtox'' = Some ''yes''
               then highestClass_st s m (Some Class_III) else m);
          (notes, s) = new_string_array s
      in ((m, notes), s))"

text \<open>
  A store is well formed when \<open>ORDER\<close> is allocated and holds the five classes
  in their order, as it does once the module is loaded. The result a caller
  reads from a returned object is its class and the contents of its \<open>notes\<close>.
\<close>

definition wf_store :: "store \<Rightarrow> bool" where
  "wf_store s = (ORDER_addr < next_addr s \<and> class_arrays s ORDER_addr = map Some ORDER)"

definition store_at_load :: store where
  "store_at_load =
     \<lparr>answer_sets = (\<lambda>_. Map.empty),
      class_arrays = (\<lambda>_. [])(ORDER_addr := map Some ORDER),
      string_arrays = (\<lambda>_. []),
      next_addr = Suc ORDER_addr\<rparr>"

definition read_result :: "store \<Rightarrow> MWHO option \<times> addr \<Rightarrow> result" where
  "read_result s r = \<lparr>mwho = fst r, notes = string_arrays s (snd r)\<rparr>"

text \<open>
  \<open>unchanged_from s s'\<close>: every Answer Set, and every array allocated in \<open>s\<close>, is
  in \<open>s'\<close> as it is in \<open>s\<close>.
\<close>

definition unchanged_from :: "store \<Rightarrow> store \<Rightarrow> bool" where
  "unchanged_from s s' =
     (answer_sets s' = answer_sets s
      \<and> next_addr s \<le> next_addr s'
      \<and> (\<forall>p < next_addr s.
            class_arrays s' p = class_arrays s p \<and> string_arrays s' p = string_arrays s p))"

text \<open>
  \<open>evaluated_twice f_st f a s\<close>: the function is called on the Answer Set at \<open>a\<close>
  in the store \<open>s\<close>, and once more in the store the first call leaves. Both
  results read the same, the first of them still so after the second call, and
  they are the result \<open>f\<close> computes from the Answer Set alone; neither call
  changes an object that was there before it.
\<close>

definition evaluated_twice ::
  "(addr \<Rightarrow> store \<Rightarrow> (MWHO option \<times> addr) \<times> store) \<Rightarrow> (Answers \<Rightarrow> result)
   \<Rightarrow> addr \<Rightarrow> store \<Rightarrow> bool" where
  "evaluated_twice f_st f a s =
     (let (r1, s1) = f_st a s; (r2, s2) = f_st a s1 in
      read_result s1 r1 = f (answer_sets s a)
      \<and> read_result s2 r2 = read_result s1 r1
      \<and> read_result s2 r1 = read_result s1 r1
      \<and> unchanged_from s s1
      \<and> unchanged_from s1 s2)"

text \<open>Conditional steps, named for the proofs.\<close>

definition hc_if :: "bool \<Rightarrow> MWHO option \<Rightarrow> MWHO option \<Rightarrow> MWHO option" where
  "hc_if c x m = (if c then highestClass m x else m)"

definition app_if :: "bool \<Rightarrow> 'a \<Rightarrow> 'a list \<Rightarrow> 'a list" where
  "app_if c v xs = (if c then xs @ [v] else xs)"

definition hcs_if :: "bool \<Rightarrow> store \<Rightarrow> MWHO option \<Rightarrow> MWHO option \<Rightarrow> MWHO option" where
  "hcs_if c s x m = (if c then highestClass_st s m x else m)"

definition push_string_if :: "bool \<Rightarrow> addr \<Rightarrow> string \<Rightarrow> store \<Rightarrow> store" where
  "push_string_if c p v s =
     s\<lparr>string_arrays := (string_arrays s)(p := app_if c v (string_arrays s p))\<rparr>"

definition push_class_if :: "bool \<Rightarrow> addr \<Rightarrow> MWHO option \<Rightarrow> store \<Rightarrow> store" where
  "push_class_if c p v s =
     s\<lparr>class_arrays := (class_arrays s)(p := app_if c v (class_arrays s p))\<rparr>"

section \<open>Properties\<close>

subsection \<open>The severity reducer\<close>

lemma highestClass_None [simp]: "highestClass None b = b" "highestClass a None = a"
  by (simp_all add: highestClass_def split: option.splits)

lemma highestClass_Some:
  "highestClass (Some x) (Some y) = Some (if indexOf ORDER x \<le> indexOf ORDER y then y else x)"
  by (cases x; cases y; simp add: highestClass_def ORDER_def at_index_def)

lemma highestClass3_None [simp]: "highestClass3 None b = b" "highestClass3 a None = a"
  by (simp_all add: highestClass3_def split: option.splits)

lemma highestClass3_Some:
  "highestClass3 (Some x) (Some y) = Some (if indexOf ORDER x \<le> indexOf ORDER y then y else x)"
  by (cases x; cases y; simp add: highestClass3_def ORDER_def at_index_def)

lemma indexOf_ORDER_inj: "indexOf ORDER x = indexOf ORDER y \<longleftrightarrow> x = y"
  by (cases x; cases y; simp add: ORDER_def)

lemma highestClass3_eq: "highestClass3 a b = highestClass a b"
  by (cases a; cases b; simp add: highestClass_Some highestClass3_Some)

lemma highestClass_commute: "highestClass a b = highestClass b a"
proof (cases a)
  case None
  then show ?thesis by simp
next
  case a: (Some x)
  show ?thesis
  proof (cases b)
    case None
    then show ?thesis by simp
  next
    case (Some y)
    with a show ?thesis
      using indexOf_ORDER_inj [of x y] by (auto simp: highestClass_Some)
  qed
qed

lemma highestClass_assoc:
  "highestClass (highestClass a b) c = highestClass a (highestClass b c)"
proof (cases a)
  case None
  then show ?thesis by simp
next
  case a: (Some x)
  show ?thesis
  proof (cases b)
    case None
    then show ?thesis by simp
  next
    case b: (Some y)
    show ?thesis
    proof (cases c)
      case None
      then show ?thesis by simp
    next
      case (Some z)
      with a b show ?thesis by (simp add: highestClass_Some)
    qed
  qed
qed

lemma MWHO_option_UNIV:
  "(UNIV :: MWHO option set) =
     {None, Some Class_I, Some Class_II, Some Class_II_III, Some Class_III, Some Class_IV}"
proof -
  have "x \<in> {None, Some Class_I, Some Class_II, Some Class_II_III, Some Class_III, Some Class_IV}"
    for x :: "MWHO option"
  proof (cases x)
    case None
    then show ?thesis by simp
  next
    case (Some c)
    then show ?thesis by (cases c) simp_all
  qed
  then show ?thesis by blast
qed

text \<open>
  Claim C1. \<open>highestClass\<close> is commutative and associative and has \<open>null\<close> as its
  identity on both sides, over the domain of \<open>null\<close> and the five classes, which
  has these six elements and no other. On two classes it returns the one at
  the later position of \<open>ORDER\<close>, which is the list I, II, II-III, III, IV. The
  \<open>highestClass\<close> of the third draft is the same function.
\<close>

theorem highestClass_max_with_identity:
  "highestClass a b = highestClass b a
   \<and> highestClass (highestClass a b) c = highestClass a (highestClass b c)
   \<and> highestClass None a = a \<and> highestClass a None = a
   \<and> highestClass (Some x) (Some y)
       = Some (if indexOf ORDER x \<le> indexOf ORDER y then y else x)
   \<and> highestClass3 a b = highestClass a b
   \<and> ORDER = [Class_I, Class_II, Class_II_III, Class_III, Class_IV]
   \<and> (UNIV :: MWHO option set)
       = {None, Some Class_I, Some Class_II, Some Class_II_III, Some Class_III, Some Class_IV}"
  using highestClass_commute [of a b] highestClass_assoc [of a b c] highestClass_Some [of x y]
    highestClass3_eq [of a b] MWHO_option_UNIV
  by (simp add: ORDER_def)

subsection \<open>No guard matches\<close>

lemma VentricularPH_unmatched:
  "no_guard_matches (guards_VentricularPH a)
   \<Longrightarrow> computeVentricularPH a = \<lparr>mwho = None, notes = []\<rparr>"
  by (simp add: no_guard_matches_def guards_VentricularPH_def computeVentricularPH_def)

lemma Cardiomyopathy_unmatched:
  "no_guard_matches (guards_Cardiomyopathy a)
   \<Longrightarrow> computeCardiomyopathy a = \<lparr>mwho = None, notes = []\<rparr>"
  by (simp add: no_guard_matches_def guards_Cardiomyopathy_def computeCardiomyopathy_def)

lemma Valvular_unmatched:
  "no_guard_matches (guards_Valvular a)
   \<Longrightarrow> computeValvular a = \<lparr>mwho = None, notes = []\<rparr>"
  by (simp add: no_guard_matches_def guards_Valvular_def computeValvular_def)

lemma Congenital_unmatched:
  "no_guard_matches (guards_Congenital a)
   \<Longrightarrow> computeCongenital a = \<lparr>mwho = None, notes = []\<rparr>"
  by (simp add: no_guard_matches_def guards_Congenital_def computeCongenital_def)

lemma Aortopathy_unmatched:
  "no_guard_matches (guards_Aortopathy a)
   \<Longrightarrow> computeAortopathy a = \<lparr>mwho = None, notes = []\<rparr>"
  by (simp add: no_guard_matches_def guards_Aortopathy_def computeAortopathy_def)

lemma Arrhythmia_unmatched:
  "no_guard_matches (guards_Arrhythmia a)
   \<Longrightarrow> computeArrhythmia a = \<lparr>mwho = None, notes = []\<rparr>"
  by (simp add: no_guard_matches_def guards_Arrhythmia_def computeArrhythmia_def)

lemma CoronaryOther_unmatched:
  "no_guard_matches (guards_CoronaryOther a)
   \<Longrightarrow> computeCoronaryOther a = \<lparr>mwho = None, notes = []\<rparr>"
  by (simp add: no_guard_matches_def guards_CoronaryOther_def computeCoronaryOther_def)

text \<open>
  Claim C2. The source of the seven functions has no \<open>throw\<close>, and the
  operations it uses (reading a property of an object, \<open>===\<close>, \<open>push\<close>,
  \<open>indexOf\<close>, indexing, \<open>reduce\<close> with an initial value) raise no exception on
  an object of strings, so each function is embedded as a function that
  returns a result on every Answer Set. On an Answer Set on which no guard of
  the function matches, the result is \<open>null\<close> with no note; the empty Answer
  Set is one such for each function, Aortopathy among them.
\<close>

theorem unmatched_gives_null_and_no_notes:
  "(no_guard_matches (guards_VentricularPH a)
      \<longrightarrow> computeVentricularPH a = \<lparr>mwho = None, notes = []\<rparr>)
   \<and> (no_guard_matches (guards_Cardiomyopathy a)
      \<longrightarrow> computeCardiomyopathy a = \<lparr>mwho = None, notes = []\<rparr>)
   \<and> (no_guard_matches (guards_Valvular a)
      \<longrightarrow> computeValvular a = \<lparr>mwho = None, notes = []\<rparr>)
   \<and> (no_guard_matches (guards_Congenital a)
      \<longrightarrow> computeCongenital a = \<lparr>mwho = None, notes = []\<rparr>)
   \<and> (no_guard_matches (guards_Aortopathy a)
      \<longrightarrow> computeAortopathy a = \<lparr>mwho = None, notes = []\<rparr>)
   \<and> (no_guard_matches (guards_Arrhythmia a)
      \<longrightarrow> computeArrhythmia a = \<lparr>mwho = None, notes = []\<rparr>)
   \<and> (no_guard_matches (guards_CoronaryOther a)
      \<longrightarrow> computeCoronaryOther a = \<lparr>mwho = None, notes = []\<rparr>)
   \<and> computeVentricularPH Map.empty = \<lparr>mwho = None, notes = []\<rparr>
   \<and> computeCardiomyopathy Map.empty = \<lparr>mwho = None, notes = []\<rparr>
   \<and> computeValvular Map.empty = \<lparr>mwho = None, notes = []\<rparr>
   \<and> computeCongenital Map.empty = \<lparr>mwho = None, notes = []\<rparr>
   \<and> computeAortopathy Map.empty = \<lparr>mwho = None, notes = []\<rparr>
   \<and> computeArrhythmia Map.empty = \<lparr>mwho = None, notes = []\<rparr>
   \<and> computeCoronaryOther Map.empty = \<lparr>mwho = None, notes = []\<rparr>"
proof -
  have "no_guard_matches (guards_VentricularPH Map.empty)"
    "no_guard_matches (guards_Cardiomyopathy Map.empty)"
    "no_guard_matches (guards_Valvular Map.empty)"
    "no_guard_matches (guards_Congenital Map.empty)"
    "no_guard_matches (guards_Aortopathy Map.empty)"
    "no_guard_matches (guards_Arrhythmia Map.empty)"
    "no_guard_matches (guards_CoronaryOther Map.empty)"
    by (simp_all add: no_guard_matches_def guards_VentricularPH_def guards_Cardiomyopathy_def
        guards_Valvular_def guards_Congenital_def guards_Aortopathy_def guards_Arrhythmia_def
        guards_CoronaryOther_def)
  then have "computeVentricularPH Map.empty = \<lparr>mwho = None, notes = []\<rparr>"
    "computeCardiomyopathy Map.empty = \<lparr>mwho = None, notes = []\<rparr>"
    "computeValvular Map.empty = \<lparr>mwho = None, notes = []\<rparr>"
    "computeCongenital Map.empty = \<lparr>mwho = None, notes = []\<rparr>"
    "computeAortopathy Map.empty = \<lparr>mwho = None, notes = []\<rparr>"
    "computeArrhythmia Map.empty = \<lparr>mwho = None, notes = []\<rparr>"
    "computeCoronaryOther Map.empty = \<lparr>mwho = None, notes = []\<rparr>"
    by (simp_all add: VentricularPH_unmatched Cardiomyopathy_unmatched Valvular_unmatched
        Congenital_unmatched Aortopathy_unmatched Arrhythmia_unmatched CoronaryOther_unmatched)
  then show ?thesis
    using VentricularPH_unmatched [of a] Cardiomyopathy_unmatched [of a]
      Valvular_unmatched [of a] Congenital_unmatched [of a] Aortopathy_unmatched [of a]
      Arrhythmia_unmatched [of a] CoronaryOther_unmatched [of a]
    by blast
qed

text \<open>
  The theorem at an Answer Set with a key that no function reads and a key
  that is read with a value that no guard tests.
\<close>

theorem unmatched_gives_null_and_no_notes_witness:
  "no_guard_matches (guards_VentricularPH [''colour'' \<mapsto> ''blue'', ''PAH'' \<mapsto> ''perhaps''])
   \<and> no_guard_matches (guards_Cardiomyopathy [''colour'' \<mapsto> ''blue'', ''PAH'' \<mapsto> ''perhaps''])
   \<and> no_guard_matches (guards_Valvular [''colour'' \<mapsto> ''blue'', ''PAH'' \<mapsto> ''perhaps''])
   \<and> no_guard_matches (guards_Congenital [''colour'' \<mapsto> ''blue'', ''PAH'' \<mapsto> ''perhaps''])
   \<and> no_guard_matches (guards_Aortopathy [''colour'' \<mapsto> ''blue'', ''PAH'' \<mapsto> ''perhaps''])
   \<and> no_guard_matches (guards_Arrhythmia [''colour'' \<mapsto> ''blue'', ''PAH'' \<mapsto> ''perhaps''])
   \<and> no_guard_matches (guards_CoronaryOther [''colour'' \<mapsto> ''blue'', ''PAH'' \<mapsto> ''perhaps''])
   \<and> computeVentricularPH [''colour'' \<mapsto> ''blue'', ''PAH'' \<mapsto> ''perhaps'']
       = \<lparr>mwho = None, notes = []\<rparr>
   \<and> computeCardiomyopathy [''colour'' \<mapsto> ''blue'', ''PAH'' \<mapsto> ''perhaps'']
       = \<lparr>mwho = None, notes = []\<rparr>
   \<and> computeValvular [''colour'' \<mapsto> ''blue'', ''PAH'' \<mapsto> ''perhaps'']
       = \<lparr>mwho = None, notes = []\<rparr>
   \<and> computeCongenital [''colour'' \<mapsto> ''blue'', ''PAH'' \<mapsto> ''perhaps'']
       = \<lparr>mwho = None, notes = []\<rparr>
   \<and> computeAortopathy [''colour'' \<mapsto> ''blue'', ''PAH'' \<mapsto> ''perhaps'']
       = \<lparr>mwho = None, notes = []\<rparr>
   \<and> computeArrhythmia [''colour'' \<mapsto> ''blue'', ''PAH'' \<mapsto> ''perhaps'']
       = \<lparr>mwho = None, notes = []\<rparr>
   \<and> computeCoronaryOther [''colour'' \<mapsto> ''blue'', ''PAH'' \<mapsto> ''perhaps'']
       = \<lparr>mwho = None, notes = []\<rparr>"
proof -
  let ?a = "[''colour'' \<mapsto> ''blue'', ''PAH'' \<mapsto> ''perhaps'']"
  have g: "no_guard_matches (guards_VentricularPH ?a)"
    "no_guard_matches (guards_Cardiomyopathy ?a)"
    "no_guard_matches (guards_Valvular ?a)"
    "no_guard_matches (guards_Congenital ?a)"
    "no_guard_matches (guards_Aortopathy ?a)"
    "no_guard_matches (guards_Arrhythmia ?a)"
    "no_guard_matches (guards_CoronaryOther ?a)"
    by (simp_all add: no_guard_matches_def guards_VentricularPH_def guards_Cardiomyopathy_def
        guards_Valvular_def guards_Congenital_def guards_Aortopathy_def guards_Arrhythmia_def
        guards_CoronaryOther_def)
  show ?thesis
    using g unmatched_gives_null_and_no_notes [of ?a] by blast
qed

subsection \<open>Folding the guards\<close>

lemma fold_pure:
  "(if c then highestClass m x else m) = hc_if c x m"
  "(if c then (highestClass m x, ns @ [v]) else (m, ns)) = (hc_if c x m, app_if c v ns)"
  "(if c then (ns @ [v], highestClass m x) else (ns, m)) = (app_if c v ns, hc_if c x m)"
  "(if c then ps @ [x] else ps) = app_if c x ps"
  by (simp_all add: hc_if_def app_if_def)

lemma fold_pure_nested:
  "(if c then if d then highestClass m x else m else m) = hc_if (c \<and> d) x m"
  by (simp add: hc_if_def)

lemma hc_if_False: "hc_if False x m = m"
  by (simp add: hc_if_def)

lemma matching_single: "app_if g c [] = matching [g] [c]"
  by (simp add: app_if_def matching_def)

lemma matching_snoc:
  "length gs = length cs \<Longrightarrow> app_if g c (matching gs cs) = matching (gs @ [g]) (cs @ [c])"
  by (simp add: app_if_def matching_def)

lemma hc_if_single: "hc_if g c None = foldl highestClass None (matching [g] [c])"
  by (simp add: hc_if_def matching_def)

lemma hc_if_snoc:
  "length gs = length cs \<Longrightarrow>
   hc_if g c (foldl highestClass None (matching gs cs))
     = foldl highestClass None (matching (gs @ [g]) (cs @ [c]))"
  by (simp add: hc_if_def matching_def)

lemma indexOf_ORDER_nonneg: "0 \<le> indexOf ORDER c"
  by (cases c) (simp_all add: ORDER_def)

lemma rank_inj: "rank x = rank y \<longleftrightarrow> x = y"
proof (cases x)
  case x: None
  show ?thesis
  proof (cases y)
    case None
    with x show ?thesis by simp
  next
    case (Some d)
    with x show ?thesis
      using indexOf_ORDER_nonneg [of d] by (auto simp: rank_def)
  qed
next
  case x: (Some c)
  show ?thesis
  proof (cases y)
    case None
    with x show ?thesis
      using indexOf_ORDER_nonneg [of c] by (auto simp: rank_def)
  next
    case (Some d)
    with x show ?thesis by (simp add: rank_def indexOf_ORDER_inj)
  qed
qed

lemma rank_highestClass: "rank (highestClass a b) = max (rank a) (rank b)"
proof (cases a)
  case a: None
  show ?thesis
  proof (cases b)
    case None
    with a show ?thesis by simp
  next
    case (Some y)
    with a show ?thesis
      using indexOf_ORDER_nonneg [of y] by (simp add: rank_def max_def)
  qed
next
  case a: (Some x)
  show ?thesis
  proof (cases b)
    case None
    with a show ?thesis
      using indexOf_ORDER_nonneg [of x] by (simp add: rank_def max_def)
  next
    case (Some y)
    with a show ?thesis by (simp add: rank_def highestClass_Some max_def)
  qed
qed

lemma highestClass_one_of: "highestClass a b = a \<or> highestClass a b = b"
  by (cases a; cases b) (simp_all add: highestClass_Some)

lemma foldl_highestClass_upper:
  "rank acc \<le> rank (foldl highestClass acc xs)
   \<and> (\<forall>x \<in> set xs. rank x \<le> rank (foldl highestClass acc xs))"
proof (induction xs arbitrary: acc)
  case Nil
  then show ?case by simp
next
  case (Cons y ys)
  from Cons.IH [of "highestClass acc y"]
  show ?case by (auto simp: rank_highestClass)
qed

lemma foldl_highestClass_attained: "foldl highestClass acc xs \<in> insert acc (set xs)"
proof (induction xs arbitrary: acc)
  case Nil
  then show ?case by simp
next
  case (Cons y ys)
  from Cons.IH [of "highestClass acc y"] highestClass_one_of [of acc y]
  show ?case by auto
qed

lemma Cardiomyopathy_fold:
  "mwho (computeCardiomyopathy a)
     = foldl highestClass None (matching (guards_Cardiomyopathy a) classes_Cardiomyopathy)"
  by (simp add: computeCardiomyopathy_def guards_Cardiomyopathy_def classes_Cardiomyopathy_def
      fold_pure matching_single matching_snoc Let_def)

lemma Valvular_fold:
  "mwho (computeValvular a)
     = foldl highestClass None (matching (guards_Valvular a) classes_Valvular)"
  by (simp add: computeValvular_def guards_Valvular_def classes_Valvular_def
      fold_pure fold_pure_nested hc_if_single hc_if_snoc Let_def)

lemma Valvular_MVP_no_effect:
  assumes "a ''MR_sev'' \<noteq> Some ''none/trace''" and "a ''MR_sev'' \<noteq> Some ''mild''"
  shows "computeValvular (a(''MVP_present'' := v)) = computeValvular a"
  using assms
  by (simp add: computeValvular_def fold_pure fold_pure_nested hc_if_False Let_def)

subsection \<open>The scenarios\<close>

text \<open>
  Claim C3. On every Answer Set with \<open>PAH\<close> answered yes, whatever the other
  answers are, \<open>computeVentricularPH\<close> returns class IV and the single note
  "Pulmonary arterial hypertension": the first branch returns, and no answer
  read by a later branch has any effect.
\<close>

theorem PAH_short_circuit:
  "a ''PAH'' = Some ''yes''
   \<Longrightarrow> computeVentricularPH a
       = \<lparr>mwho = Some Class_IV, notes = [''Pulmonary arterial hypertension'']\<rparr>"
  by (simp add: computeVentricularPH_def)

theorem PAH_short_circuit_witness:
  "[''PAH'' \<mapsto> ''yes'', ''LVEF'' \<mapsto> ''<30%''] ''PAH'' = Some ''yes''
   \<and> computeVentricularPH [''PAH'' \<mapsto> ''yes'', ''LVEF'' \<mapsto> ''<30%'']
       = \<lparr>mwho = Some Class_IV, notes = [''Pulmonary arterial hypertension'']\<rparr>"
proof -
  have h: "[''PAH'' \<mapsto> ''yes'', ''LVEF'' \<mapsto> ''<30%''] ''PAH'' = Some ''yes''"
    by simp
  show ?thesis
    using h PAH_short_circuit [of "[''PAH'' \<mapsto> ''yes'', ''LVEF'' \<mapsto> ''<30%'']"] by blast
qed

text \<open>
  Claim C4. On every Answer Set the class \<open>computeCardiomyopathy\<close> returns is
  the fold, by \<open>highestClass\<close> from \<open>null\<close>, of the classes of the guards that
  match, and no note is returned. That class is at least as high in \<open>ORDER\<close> as
  the class of every matching guard, and it is the class of one of them, or
  \<open>null\<close>; two results of equal position are equal, so it is the highest. On
  the Answer Set with \<open>HCMgenoPheno\<close> answered "+/-" (with the minus sign of the
  source) and \<open>DCM_EF\<close> answered "<30%/NYHAIII-IV" the matching classes are I
  and IV and the result is IV. On the Answer Set with \<open>HCMcomp\<close> answered
  "severe-LVOT>=50-or-EF<50%" and \<open>ARVC\<close> answered "low-risk" they are IV and
  II-III, in this order, and the result is IV again: the highest, not the last.
\<close>

theorem Cardiomyopathy_highest_of_matching:
  "mwho (computeCardiomyopathy a)
     = foldl highestClass None (matching (guards_Cardiomyopathy a) classes_Cardiomyopathy)
   \<and> notes (computeCardiomyopathy a) = []
   \<and> (\<forall>c \<in> set (matching (guards_Cardiomyopathy a) classes_Cardiomyopathy).
         rank c \<le> rank (mwho (computeCardiomyopathy a)))
   \<and> mwho (computeCardiomyopathy a)
       \<in> insert None (set (matching (guards_Cardiomyopathy a) classes_Cardiomyopathy))
   \<and> (rank x = rank y) = (x = y)
   \<and> computeCardiomyopathy
         [''HCMgenoPheno'' \<mapsto> ''+/'' @ minus_sign, ''DCM_EF'' \<mapsto> ''<30%/NYHAIII-IV'']
       = \<lparr>mwho = Some Class_IV, notes = []\<rparr>
   \<and> matching
         (guards_Cardiomyopathy
           [''HCMgenoPheno'' \<mapsto> ''+/'' @ minus_sign, ''DCM_EF'' \<mapsto> ''<30%/NYHAIII-IV''])
         classes_Cardiomyopathy
       = [Some Class_I, Some Class_IV]
   \<and> rank (Some Class_I) < rank (Some Class_IV)
   \<and> computeCardiomyopathy
         [''HCMcomp'' \<mapsto> ''severe-LVOT>=50-or-EF<50%'', ''ARVC'' \<mapsto> ''low-risk'']
       = \<lparr>mwho = Some Class_IV, notes = []\<rparr>
   \<and> matching
         (guards_Cardiomyopathy
           [''HCMcomp'' \<mapsto> ''severe-LVOT>=50-or-EF<50%'', ''ARVC'' \<mapsto> ''low-risk''])
         classes_Cardiomyopathy
       = [Some Class_IV, Some Class_II_III]"
proof -
  let ?cs = "matching (guards_Cardiomyopathy a) classes_Cardiomyopathy"
  have no_notes: "notes (computeCardiomyopathy a) = []"
    by (simp add: computeCardiomyopathy_def Let_def)
  have upper: "\<forall>c \<in> set ?cs. rank c \<le> rank (mwho (computeCardiomyopathy a))"
    unfolding Cardiomyopathy_fold using foldl_highestClass_upper [of None ?cs] by blast
  have attained: "mwho (computeCardiomyopathy a) \<in> insert None (set ?cs)"
    unfolding Cardiomyopathy_fold by (rule foldl_highestClass_attained)
  have first: "computeCardiomyopathy
      [''HCMgenoPheno'' \<mapsto> ''+/'' @ minus_sign, ''DCM_EF'' \<mapsto> ''<30%/NYHAIII-IV'']
    = \<lparr>mwho = Some Class_IV, notes = []\<rparr>"
    by (simp add: computeCardiomyopathy_def highestClass_Some ORDER_def)
  have first_cs: "matching
      (guards_Cardiomyopathy
        [''HCMgenoPheno'' \<mapsto> ''+/'' @ minus_sign, ''DCM_EF'' \<mapsto> ''<30%/NYHAIII-IV''])
      classes_Cardiomyopathy
    = [Some Class_I, Some Class_IV]"
    by (simp add: guards_Cardiomyopathy_def classes_Cardiomyopathy_def matching_def)
  have below: "rank (Some Class_I) < rank (Some Class_IV)"
    by (simp add: rank_def ORDER_def)
  have second: "computeCardiomyopathy
      [''HCMcomp'' \<mapsto> ''severe-LVOT>=50-or-EF<50%'', ''ARVC'' \<mapsto> ''low-risk'']
    = \<lparr>mwho = Some Class_IV, notes = []\<rparr>"
    by (simp add: computeCardiomyopathy_def highestClass_Some ORDER_def)
  have second_cs: "matching
      (guards_Cardiomyopathy
        [''HCMcomp'' \<mapsto> ''severe-LVOT>=50-or-EF<50%'', ''ARVC'' \<mapsto> ''low-risk''])
      classes_Cardiomyopathy
    = [Some Class_IV, Some Class_II_III]"
    by (simp add: guards_Cardiomyopathy_def classes_Cardiomyopathy_def matching_def)
  show ?thesis
    using Cardiomyopathy_fold [of a] no_notes upper attained rank_inj [of x y]
      first first_cs below second second_cs
    by blast
qed

text \<open>
  The theorem at the Answer Set of the claim: class I is the class of a
  matching guard there, and it is not above the class returned.
\<close>

theorem Cardiomyopathy_highest_of_matching_witness:
  "Some Class_I
     \<in> set (matching
         (guards_Cardiomyopathy
           [''HCMgenoPheno'' \<mapsto> ''+/'' @ minus_sign, ''DCM_EF'' \<mapsto> ''<30%/NYHAIII-IV''])
         classes_Cardiomyopathy)
   \<and> rank (Some Class_I)
       \<le> rank (mwho (computeCardiomyopathy
           [''HCMgenoPheno'' \<mapsto> ''+/'' @ minus_sign, ''DCM_EF'' \<mapsto> ''<30%/NYHAIII-IV'']))"
proof -
  let ?a = "[''HCMgenoPheno'' \<mapsto> ''+/'' @ minus_sign, ''DCM_EF'' \<mapsto> ''<30%/NYHAIII-IV'']"
  have mem: "Some Class_I \<in> set (matching (guards_Cardiomyopathy ?a) classes_Cardiomyopathy)"
    by (simp add: guards_Cardiomyopathy_def classes_Cardiomyopathy_def matching_def)
  show ?thesis
    using mem Cardiomyopathy_highest_of_matching [of ?a] by blast
qed

text \<open>
  Claim C5. On the Answer Set with \<open>MVP_present\<close> answered yes and \<open>MR_sev\<close>
  answered moderate, \<open>computeValvular\<close> returns class II-III and no note, and
  the guard on moderate regurgitation is the only one that matches. On every
  Answer Set the class returned is the fold of the classes of the matching
  guards. On every Answer Set where \<open>MR_sev\<close> is neither "none/trace" nor
  "mild", the answer to \<open>MVP_present\<close> has no effect on the result, whatever it
  is set to or if it is removed; and where \<open>MR_sev\<close> is moderate the eighth
  guard matches and the ninth, the guard for prolapse, does not. Where
  \<open>MR_sev\<close> is mild the answer to \<open>MVP_present\<close> does decide: with yes the result
  is class I, without it \<open>null\<close>.
\<close>

theorem Valvular_MVP_with_moderate_MR:
  "computeValvular [''MVP_present'' \<mapsto> ''yes'', ''MR_sev'' \<mapsto> ''moderate'']
     = \<lparr>mwho = Some Class_II_III, notes = []\<rparr>
   \<and> guards_Valvular [''MVP_present'' \<mapsto> ''yes'', ''MR_sev'' \<mapsto> ''moderate'']
     = [False, False, False, False, False, False, False, True, False, False, False]
   \<and> mwho (computeValvular a)
       = foldl highestClass None (matching (guards_Valvular a) classes_Valvular)
   \<and> (a ''MR_sev'' \<noteq> Some ''none/trace'' \<and> a ''MR_sev'' \<noteq> Some ''mild''
        \<longrightarrow> computeValvular (a(''MVP_present'' := v)) = computeValvular a)
   \<and> (a ''MR_sev'' = Some ''moderate''
        \<longrightarrow> guards_Valvular a ! 7 \<and> \<not> guards_Valvular a ! 8)
   \<and> computeValvular [''MVP_present'' \<mapsto> ''yes'', ''MR_sev'' \<mapsto> ''mild'']
       = \<lparr>mwho = Some Class_I, notes = []\<rparr>
   \<and> computeValvular [''MR_sev'' \<mapsto> ''mild''] = \<lparr>mwho = None, notes = []\<rparr>"
proof -
  have at_claim: "computeValvular [''MVP_present'' \<mapsto> ''yes'', ''MR_sev'' \<mapsto> ''moderate'']
      = \<lparr>mwho = Some Class_II_III, notes = []\<rparr>"
    "guards_Valvular [''MVP_present'' \<mapsto> ''yes'', ''MR_sev'' \<mapsto> ''moderate'']
      = [False, False, False, False, False, False, False, True, False, False, False]"
    by (simp_all add: computeValvular_def guards_Valvular_def)
  have excl: "guards_Valvular a ! 7 \<and> \<not> guards_Valvular a ! 8"
    if "a ''MR_sev'' = Some ''moderate''"
    using that by (simp add: guards_Valvular_def)
  have mild: "computeValvular [''MVP_present'' \<mapsto> ''yes'', ''MR_sev'' \<mapsto> ''mild'']
      = \<lparr>mwho = Some Class_I, notes = []\<rparr>"
    "computeValvular [''MR_sev'' \<mapsto> ''mild''] = \<lparr>mwho = None, notes = []\<rparr>"
    by (simp_all add: computeValvular_def)
  show ?thesis
    using at_claim Valvular_fold [of a] Valvular_MVP_no_effect [of a v] excl mild
    by blast
qed

text \<open>
  The theorem at the Answer Set of the claim, with the answer to
  \<open>MVP_present\<close> removed.
\<close>

theorem Valvular_MVP_with_moderate_MR_witness:
  "[''MVP_present'' \<mapsto> ''yes'', ''MR_sev'' \<mapsto> ''moderate''] ''MR_sev'' \<noteq> Some ''none/trace''
   \<and> [''MVP_present'' \<mapsto> ''yes'', ''MR_sev'' \<mapsto> ''moderate''] ''MR_sev'' \<noteq> Some ''mild''
   \<and> [''MVP_present'' \<mapsto> ''yes'', ''MR_sev'' \<mapsto> ''moderate''] ''MR_sev'' = Some ''moderate''
   \<and> computeValvular
        ([''MVP_present'' \<mapsto> ''yes'', ''MR_sev'' \<mapsto> ''moderate''](''MVP_present'' := None))
       = computeValvular [''MVP_present'' \<mapsto> ''yes'', ''MR_sev'' \<mapsto> ''moderate'']
   \<and> guards_Valvular [''MVP_present'' \<mapsto> ''yes'', ''MR_sev'' \<mapsto> ''moderate''] ! 7
   \<and> \<not> guards_Valvular [''MVP_present'' \<mapsto> ''yes'', ''MR_sev'' \<mapsto> ''moderate''] ! 8"
proof -
  let ?a = "[''MVP_present'' \<mapsto> ''yes'', ''MR_sev'' \<mapsto> ''moderate'']"
  have h: "?a ''MR_sev'' \<noteq> Some ''none/trace''" "?a ''MR_sev'' \<noteq> Some ''mild''"
    "?a ''MR_sev'' = Some ''moderate''"
    by simp_all
  show ?thesis
    using h Valvular_MVP_with_moderate_MR [of ?a None] by blast
qed

subsection \<open>Evaluation on the store\<close>

lemma indexOf_map_Some: "indexOf (map Some xs) (Some x) = indexOf xs x"
  by (induction xs) (simp_all add: Let_def)

lemma at_index_map: "at_index (map f xs) i = map_option f (at_index xs i)"
  by (auto simp: at_index_def)

lemma highestClass_st_eq:
  assumes "class_arrays s ORDER_addr = map Some ORDER"
  shows "highestClass_st s a b = highestClass a b"
proof (cases a)
  case None
  then show ?thesis by (simp add: highestClass_st_def)
next
  case a: (Some x)
  show ?thesis
  proof (cases b)
    case None
    with a show ?thesis by (simp add: highestClass_st_def)
  next
    case b: (Some y)
    show ?thesis
    proof (cases "at_index ORDER (max (indexOf ORDER x) (indexOf ORDER y))")
      case None
      with a b assms show ?thesis
        by (simp add: highestClass_st_def highestClass_def indexOf_map_Some at_index_map)
    next
      case (Some c)
      with a b assms show ?thesis
        by (simp add: highestClass_st_def highestClass_def indexOf_map_Some at_index_map)
    qed
  qed
qed

lemma fold_store:
  "(if c then highestClass_st s m x else m) = hcs_if c s x m"
  "(if c then (highestClass_st s m x, push_string p v s) else (m, s))
     = (hcs_if c s x m, push_string_if c p v s)"
  "(if c then (push_string p v s, highestClass_st s m x) else (s, m))
     = (push_string_if c p v s, hcs_if c s x m)"
  "(if c then push_class p x s else s) = push_class_if c p x s"
  by (simp_all add: hcs_if_def push_string_if_def push_class_if_def app_if_def
      push_string_def push_class_def)

lemma hcs_if_eq:
  "class_arrays s ORDER_addr = map Some ORDER \<Longrightarrow> hcs_if c s x m = hc_if c x m"
  by (simp add: hcs_if_def hc_if_def highestClass_st_eq)

lemma fold_store_nested:
  "(if c then if d then highestClass_st s m x else m else m) = hcs_if (c \<and> d) s x m"
  by (simp add: hcs_if_def)

lemma VentricularPH_run:
  assumes "wf_store s"
  shows "computeVentricularPH_st a s =
    ((mwho (computeVentricularPH (answer_sets s a)), next_addr s),
     s\<lparr>string_arrays :=
         (string_arrays s)(next_addr s := notes (computeVentricularPH (answer_sets s a))),
       next_addr := Suc (next_addr s)\<rparr>)"
  by (simp add: computeVentricularPH_st_def computeVentricularPH_def new_string_array_def
      push_string_def)

lemma highestClass_st_eq_fun:
  "class_arrays s ORDER_addr = map Some ORDER \<Longrightarrow> highestClass_st s = highestClass"
  by (intro ext) (rule highestClass_st_eq)

lemma Cardiomyopathy_run:
  assumes "wf_store s"
  shows "computeCardiomyopathy_st a s =
    ((mwho (computeCardiomyopathy (answer_sets s a)), Suc (next_addr s)),
     s\<lparr>class_arrays :=
         (class_arrays s)
           (next_addr s := class_arrays (snd (computeCardiomyopathy_st a s)) (next_addr s)),
       string_arrays :=
         (string_arrays s)(Suc (next_addr s) := notes (computeCardiomyopathy (answer_sets s a))),
       next_addr := Suc (Suc (next_addr s))\<rparr>)"
proof -
  from assms have "next_addr s \<noteq> ORDER_addr" "ORDER_addr \<noteq> next_addr s"
    and "class_arrays s ORDER_addr = map Some ORDER"
    by (simp_all add: wf_store_def)
  then show ?thesis
    by (simp add: computeCardiomyopathy_st_def computeCardiomyopathy_def new_class_array_def
        new_string_array_def fold_pure fold_store push_class_if_def highestClass_st_eq_fun
        Let_def)
qed

lemma Valvular_run:
  assumes "wf_store s"
  shows "computeValvular_st a s =
    ((mwho (computeValvular (answer_sets s a)), next_addr s),
     s\<lparr>string_arrays :=
         (string_arrays s)(next_addr s := notes (computeValvular (answer_sets s a))),
       next_addr := Suc (next_addr s)\<rparr>)"
  using assms
  by (simp add: wf_store_def computeValvular_st_def computeValvular_def new_string_array_def
      fold_pure fold_pure_nested fold_store fold_store_nested hcs_if_eq push_string_if_def
      Let_def)

lemma Congenital_run:
  assumes "wf_store s"
  shows "computeCongenital_st a s =
    ((mwho (computeCongenital (answer_sets s a)), next_addr s),
     s\<lparr>string_arrays :=
         (string_arrays s)(next_addr s := notes (computeCongenital (answer_sets s a))),
       next_addr := Suc (next_addr s)\<rparr>)"
  using assms
  by (simp add: wf_store_def computeCongenital_st_def computeCongenital_def new_string_array_def
      fold_pure fold_store hcs_if_eq push_string_if_def Let_def)

lemma Aortopathy_run:
  assumes "wf_store s"
  shows "computeAortopathy_st a s =
    ((mwho (computeAortopathy (answer_sets s a)), next_addr s),
     s\<lparr>string_arrays :=
         (string_arrays s)(next_addr s := notes (computeAortopathy (answer_sets s a))),
       next_addr := Suc (next_addr s)\<rparr>)"
  using assms
  by (simp add: wf_store_def computeAortopathy_st_def computeAortopathy_def new_string_array_def
      fold_pure fold_store hcs_if_eq push_string_if_def Let_def)

lemma Arrhythmia_run:
  assumes "wf_store s"
  shows "computeArrhythmia_st a s =
    ((mwho (computeArrhythmia (answer_sets s a)), next_addr s),
     s\<lparr>string_arrays :=
         (string_arrays s)(next_addr s := notes (computeArrhythmia (answer_sets s a))),
       next_addr := Suc (next_addr s)\<rparr>)"
  using assms
  by (simp add: wf_store_def computeArrhythmia_st_def computeArrhythmia_def new_string_array_def
      fold_pure fold_store hcs_if_eq push_string_if_def Let_def)

lemma CoronaryOther_run:
  assumes "wf_store s"
  shows "computeCoronaryOther_st a s =
    ((mwho (computeCoronaryOther (answer_sets s a)), next_addr s),
     s\<lparr>string_arrays :=
         (string_arrays s)(next_addr s := notes (computeCoronaryOther (answer_sets s a))),
       next_addr := Suc (next_addr s)\<rparr>)"
  using assms
  by (simp add: wf_store_def computeCoronaryOther_st_def computeCoronaryOther_def
      new_string_array_def fold_pure fold_store hcs_if_eq push_string_if_def Let_def)

lemma evaluated_twiceI:
  assumes wf: "wf_store s"
    and run: "\<And>s. wf_store s \<Longrightarrow>
      \<exists>n s'. f_st a s = ((mwho (f (answer_sets s a)), n), s')
        \<and> n < next_addr s'
        \<and> string_arrays s' n = notes (f (answer_sets s a))
        \<and> unchanged_from s s'"
  shows "evaluated_twice f_st f a s"
proof -
  from run [OF wf] obtain n1 s1 where
    r1: "f_st a s = ((mwho (f (answer_sets s a)), n1), s1)"
    and n1: "n1 < next_addr s1"
    and notes1: "string_arrays s1 n1 = notes (f (answer_sets s a))"
    and u1: "unchanged_from s s1"
    by blast
  from wf u1 have wf1: "wf_store s1"
    by (auto simp: wf_store_def unchanged_from_def)
  from u1 have same: "answer_sets s1 a = answer_sets s a"
    by (simp add: unchanged_from_def)
  from run [OF wf1] same obtain n2 s2 where
    r2: "f_st a s1 = ((mwho (f (answer_sets s a)), n2), s2)"
    and notes2: "string_arrays s2 n2 = notes (f (answer_sets s a))"
    and u2: "unchanged_from s1 s2"
    by auto
  from u2 n1 have kept: "string_arrays s2 n1 = string_arrays s1 n1"
    by (simp add: unchanged_from_def)
  show ?thesis
    by (simp add: evaluated_twice_def r1 r2 read_result_def notes1 notes2 kept u1 u2)
qed

lemma VentricularPH_twice:
  "wf_store s \<Longrightarrow> evaluated_twice computeVentricularPH_st computeVentricularPH a s"
  by (erule evaluated_twiceI) (simp add: VentricularPH_run unchanged_from_def)

lemma Cardiomyopathy_twice:
  "wf_store s \<Longrightarrow> evaluated_twice computeCardiomyopathy_st computeCardiomyopathy a s"
proof (erule evaluated_twiceI)
  fix s
  assume "wf_store s"
  define ps where "ps = class_arrays (snd (computeCardiomyopathy_st a s)) (next_addr s)"
  from Cardiomyopathy_run [OF \<open>wf_store s\<close>, of a]
  have run: "computeCardiomyopathy_st a s =
    ((mwho (computeCardiomyopathy (answer_sets s a)), Suc (next_addr s)),
     s\<lparr>class_arrays := (class_arrays s)(next_addr s := ps),
       string_arrays :=
         (string_arrays s)(Suc (next_addr s) := notes (computeCardiomyopathy (answer_sets s a))),
       next_addr := Suc (Suc (next_addr s))\<rparr>)"
    unfolding ps_def .
  show "\<exists>n s'. computeCardiomyopathy_st a s
        = ((mwho (computeCardiomyopathy (answer_sets s a)), n), s')
      \<and> n < next_addr s'
      \<and> string_arrays s' n = notes (computeCardiomyopathy (answer_sets s a))
      \<and> unchanged_from s s'"
    unfolding run by (simp add: unchanged_from_def)
qed

lemma Valvular_twice:
  "wf_store s \<Longrightarrow> evaluated_twice computeValvular_st computeValvular a s"
  by (erule evaluated_twiceI) (simp add: Valvular_run unchanged_from_def)

lemma Congenital_twice:
  "wf_store s \<Longrightarrow> evaluated_twice computeCongenital_st computeCongenital a s"
  by (erule evaluated_twiceI) (simp add: Congenital_run unchanged_from_def)

lemma Aortopathy_twice:
  "wf_store s \<Longrightarrow> evaluated_twice computeAortopathy_st computeAortopathy a s"
  by (erule evaluated_twiceI) (simp add: Aortopathy_run unchanged_from_def)

lemma Arrhythmia_twice:
  "wf_store s \<Longrightarrow> evaluated_twice computeArrhythmia_st computeArrhythmia a s"
  by (erule evaluated_twiceI) (simp add: Arrhythmia_run unchanged_from_def)

lemma CoronaryOther_twice:
  "wf_store s \<Longrightarrow> evaluated_twice computeCoronaryOther_st computeCoronaryOther a s"
  by (erule evaluated_twiceI) (simp add: CoronaryOther_run unchanged_from_def)

text \<open>
  Claim C6. In a store where \<open>ORDER\<close> is as the module allocates it, each of
  the seven functions, called twice on the same Answer Set, returns results
  that read the same, class and notes, and that are the result of the function
  of the Answer Set alone; no call changes an Answer Set, \<open>ORDER\<close> or any other
  array that was allocated before it, the \<open>notes\<close> of the earlier result among
  them.
\<close>

theorem evaluation_is_deterministic_and_pure:
  assumes "wf_store s"
  shows "evaluated_twice computeVentricularPH_st computeVentricularPH a s
    \<and> evaluated_twice computeCardiomyopathy_st computeCardiomyopathy a s
    \<and> evaluated_twice computeValvular_st computeValvular a s
    \<and> evaluated_twice computeCongenital_st computeCongenital a s
    \<and> evaluated_twice computeAortopathy_st computeAortopathy a s
    \<and> evaluated_twice computeArrhythmia_st computeArrhythmia a s
    \<and> evaluated_twice computeCoronaryOther_st computeCoronaryOther a s"
  using assms VentricularPH_twice Cardiomyopathy_twice Valvular_twice Congenital_twice
    Aortopathy_twice Arrhythmia_twice CoronaryOther_twice
  by blast

text \<open>
  The theorem in the store the module leaves when it is loaded, with the
  Answer Set \<open>{PAH: "yes"}\<close> at address 5.
\<close>

theorem evaluation_is_deterministic_and_pure_witness:
  "wf_store (store_at_load\<lparr>answer_sets := (\<lambda>_. Map.empty)(5 := [''PAH'' \<mapsto> ''yes''])\<rparr>)
   \<and> evaluated_twice computeVentricularPH_st computeVentricularPH 5
       (store_at_load\<lparr>answer_sets := (\<lambda>_. Map.empty)(5 := [''PAH'' \<mapsto> ''yes''])\<rparr>)
   \<and> evaluated_twice computeCardiomyopathy_st computeCardiomyopathy 5
       (store_at_load\<lparr>answer_sets := (\<lambda>_. Map.empty)(5 := [''PAH'' \<mapsto> ''yes''])\<rparr>)
   \<and> evaluated_twice computeValvular_st computeValvular 5
       (store_at_load\<lparr>answer_sets := (\<lambda>_. Map.empty)(5 := [''PAH'' \<mapsto> ''yes''])\<rparr>)
   \<and> evaluated_twice computeCongenital_st computeCongenital 5
       (store_at_load\<lparr>answer_sets := (\<lambda>_. Map.empty)(5 := [''PAH'' \<mapsto> ''yes''])\<rparr>)
   \<and> evaluated_twice computeAortopathy_st computeAortopathy 5
       (store_at_load\<lparr>answer_sets := (\<lambda>_. Map.empty)(5 := [''PAH'' \<mapsto> ''yes''])\<rparr>)
   \<and> evaluated_twice computeArrhythmia_st computeArrhythmia 5
       (store_at_load\<lparr>answer_sets := (\<lambda>_. Map.empty)(5 := [''PAH'' \<mapsto> ''yes''])\<rparr>)
   \<and> evaluated_twice computeCoronaryOther_st computeCoronaryOther 5
       (store_at_load\<lparr>answer_sets := (\<lambda>_. Map.empty)(5 := [''PAH'' \<mapsto> ''yes''])\<rparr>)
   \<and> read_result
        (snd (computeVentricularPH_st 5
          (store_at_load\<lparr>answer_sets := (\<lambda>_. Map.empty)(5 := [''PAH'' \<mapsto> ''yes''])\<rparr>)))
        (fst (computeVentricularPH_st 5
          (store_at_load\<lparr>answer_sets := (\<lambda>_. Map.empty)(5 := [''PAH'' \<mapsto> ''yes''])\<rparr>)))
       = \<lparr>mwho = Some Class_IV, notes = [''Pulmonary arterial hypertension'']\<rparr>"
proof -
  let ?s = "store_at_load\<lparr>answer_sets := (\<lambda>_. Map.empty)(5 := [''PAH'' \<mapsto> ''yes''])\<rparr>"
  have wf: "wf_store ?s"
    by (simp add: wf_store_def store_at_load_def ORDER_addr_def)
  have run: "read_result (snd (computeVentricularPH_st 5 ?s)) (fst (computeVentricularPH_st 5 ?s))
      = \<lparr>mwho = Some Class_IV, notes = [''Pulmonary arterial hypertension'']\<rparr>"
    by (simp add: computeVentricularPH_st_def new_string_array_def push_string_def
        read_result_def store_at_load_def)
  show ?thesis
    using wf run evaluation_is_deterministic_and_pure [of ?s 5] by blast
qed

subsection \<open>Selecting a group\<close>

text \<open>
  Claim C7. The handler of the group button of the first draft empties the
  Answer Set, whatever the state before. The handlers of the second and of the
  third draft call \<open>setGroup\<close> only, and the Answer Set stays as it was: after
  Valvular is chosen and \<open>MS\<close> is answered severe, choosing Congenital leaves
  the answer in place, and choosing Valvular again shows class IV with no
  question answered since.
\<close>

theorem group_button_and_the_answers:
  "answers (onClick_group g s) = Map.empty
   \<and> answers (onClick_group2 g s) = answers s
   \<and> answers (onClick_group3 g s) = answers s
   \<and> answers (onClick_group2 Congenital
         (set_answer ''MS'' ''severe'' (onClick_group2 Valvular initial_state)))
       = [''MS'' \<mapsto> ''severe'']
   \<and> answers (onClick_group3 Congenital
         (set_answer ''MS'' ''severe'' (onClick_group3 Valvular initial_state)))
       = [''MS'' \<mapsto> ''severe'']
   \<and> [''MS'' \<mapsto> ''severe''] \<noteq> (Map.empty :: Answers)
   \<and> computed2 (onClick_group2 Valvular (onClick_group2 Congenital
         (set_answer ''MS'' ''severe'' (onClick_group2 Valvular initial_state))))
       = \<lparr>mwho = Some Class_IV, notes = []\<rparr>
   \<and> computed (onClick_group Valvular (onClick_group Congenital
         (set_answer ''MS'' ''severe'' (onClick_group Valvular initial_state))))
       = \<lparr>mwho = None, notes = []\<rparr>"
proof -
  have ne: "[''MS'' \<mapsto> ''severe''] \<noteq> (Map.empty :: Answers)"
    by simp
  have sel: "answers (onClick_group g s) = Map.empty"
    "answers (onClick_group2 g s) = answers s"
    "answers (onClick_group3 g s) = answers s"
    by (simp_all add: onClick_group_def onClick_group2_def onClick_group3_def
        setGroup_def setAnswers_def)
  have run2: "onClick_group2 Congenital
      (set_answer ''MS'' ''severe'' (onClick_group2 Valvular initial_state))
    = \<lparr>group = Some Congenital, answers = [''MS'' \<mapsto> ''severe'']\<rparr>"
    by (simp add: onClick_group2_def set_answer_def setGroup_def setAnswers_def
        initial_state_def)
  have run3: "onClick_group3 Congenital
      (set_answer ''MS'' ''severe'' (onClick_group3 Valvular initial_state))
    = \<lparr>group = Some Congenital, answers = [''MS'' \<mapsto> ''severe'']\<rparr>"
    by (simp add: onClick_group3_def set_answer_def setGroup_def setAnswers_def
        initial_state_def)
  have back2: "computed2 (onClick_group2 Valvular
      \<lparr>group = Some Congenital, answers = [''MS'' \<mapsto> ''severe'']\<rparr>)
    = \<lparr>mwho = Some Class_IV, notes = []\<rparr>"
    by (simp add: computed2_def onClick_group2_def setGroup_def computeValvular2_def
        highestClass2_def)
  have back1: "computed (onClick_group Valvular s') = \<lparr>mwho = None, notes = []\<rparr>" for s'
    by (simp add: computed_def onClick_group_def setGroup_def setAnswers_def
        computeValvular_def)
  show ?thesis
    using ne sel run2 run3 back2 back1 by simp
qed

subsection \<open>The drafts of the Valvular function\<close>

text \<open>
  Claim C8. The Valvular functions of the drafts are not the same function.
  On the Answer Set with \<open>MVP_present\<close> answered yes and \<open>MR_sev\<close> not answered,
  and on the one with \<open>MR_sev\<close> answered unknown, the second draft returns the
  note "MVP present but MR severity unknown - cannot assume class I" (with the
  dash of the source), and the first and the third draft return no note.
\<close>

theorem Valvular_drafts_differ:
  "computeValvular [''MVP_present'' \<mapsto> ''yes''] = \<lparr>mwho = None, notes = []\<rparr>
   \<and> computeValvular2 [''MVP_present'' \<mapsto> ''yes'']
       = \<lparr>mwho = None,
          notes = [''MVP present but MR severity unknown '' @ em_dash
                   @ '' cannot assume class I'']\<rparr>
   \<and> computeValvular3 [''MVP_present'' \<mapsto> ''yes''] = \<lparr>mwho = None, notes = []\<rparr>
   \<and> computeValvular [''MVP_present'' \<mapsto> ''yes'', ''MR_sev'' \<mapsto> ''unknown'']
       = \<lparr>mwho = None, notes = []\<rparr>
   \<and> computeValvular2 [''MVP_present'' \<mapsto> ''yes'', ''MR_sev'' \<mapsto> ''unknown'']
       = \<lparr>mwho = None,
          notes = [''MVP present but MR severity unknown '' @ em_dash
                   @ '' cannot assume class I'']\<rparr>
   \<and> computeValvular3 [''MVP_present'' \<mapsto> ''yes'', ''MR_sev'' \<mapsto> ''unknown'']
       = \<lparr>mwho = None, notes = []\<rparr>
   \<and> computeValvular2 \<noteq> computeValvular
   \<and> computeValvular2 \<noteq> computeValvular3"
proof -
  have d1: "computeValvular [''MVP_present'' \<mapsto> ''yes''] = \<lparr>mwho = None, notes = []\<rparr>"
    "computeValvular [''MVP_present'' \<mapsto> ''yes'', ''MR_sev'' \<mapsto> ''unknown'']
       = \<lparr>mwho = None, notes = []\<rparr>"
    by (simp_all add: computeValvular_def)
  have d2: "computeValvular2 [''MVP_present'' \<mapsto> ''yes'']
       = \<lparr>mwho = None,
          notes = [''MVP present but MR severity unknown '' @ em_dash
                   @ '' cannot assume class I'']\<rparr>"
    "computeValvular2 [''MVP_present'' \<mapsto> ''yes'', ''MR_sev'' \<mapsto> ''unknown'']
       = \<lparr>mwho = None,
          notes = [''MVP present but MR severity unknown '' @ em_dash
                   @ '' cannot assume class I'']\<rparr>"
    by (simp_all add: computeValvular2_def)
  have d3: "computeValvular3 [''MVP_present'' \<mapsto> ''yes''] = \<lparr>mwho = None, notes = []\<rparr>"
    "computeValvular3 [''MVP_present'' \<mapsto> ''yes'', ''MR_sev'' \<mapsto> ''unknown'']
       = \<lparr>mwho = None, notes = []\<rparr>"
    by (simp_all add: computeValvular3_def)
  have "computeValvular2 [''MVP_present'' \<mapsto> ''yes'']
      \<noteq> computeValvular [''MVP_present'' \<mapsto> ''yes'']"
    unfolding d1 d2 by simp
  then have n1: "computeValvular2 \<noteq> computeValvular"
    by metis
  have "computeValvular2 [''MVP_present'' \<mapsto> ''yes'']
      \<noteq> computeValvular3 [''MVP_present'' \<mapsto> ''yes'']"
    unfolding d2 d3 by simp
  then have n3: "computeValvular2 \<noteq> computeValvular3"
    by metis
  show ?thesis
    using d1 d2 d3 n1 n3 by blast
qed

subsection \<open>Ranges of the results\<close>

text \<open>
  Claim C9. On every Answer Set the class returned by \<open>computeVentricularPH\<close>,
  in the first and in the third draft, is \<open>null\<close>, II-III, III or IV; it is
  neither I nor II.
\<close>

theorem VentricularPH_never_below_II_III:
  "mwho (computeVentricularPH a) \<in> {None, Some Class_II_III, Some Class_III, Some Class_IV}
   \<and> mwho (computeVentricularPH a) \<noteq> Some Class_I
   \<and> mwho (computeVentricularPH a) \<noteq> Some Class_II
   \<and> mwho (computeVentricularPH3 a) \<in> {None, Some Class_II_III, Some Class_III, Some Class_IV}
   \<and> mwho (computeVentricularPH3 a) \<noteq> Some Class_I
   \<and> mwho (computeVentricularPH3 a) \<noteq> Some Class_II"
  by (simp add: computeVentricularPH_def computeVentricularPH3_def)

text \<open>
  Claim C10. On every Answer Set \<open>computeCardiomyopathy\<close>, \<open>computeCongenital\<close>,
  \<open>computeArrhythmia\<close> and \<open>computeCoronaryOther\<close> return no note. Each of the
  three other functions returns a note on some Answer Set.
\<close>

theorem four_functions_without_notes:
  "notes (computeCardiomyopathy a) = []
   \<and> notes (computeCongenital a) = []
   \<and> notes (computeArrhythmia a) = []
   \<and> notes (computeCoronaryOther a) = []
   \<and> notes (computeVentricularPH [''PAH'' \<mapsto> ''yes''])
       = [''Pulmonary arterial hypertension'']
   \<and> notes (computeValvular [''MechanicalValve'' \<mapsto> ''well-controlled''])
       = [''Mechanical valve on stable anticoagulation'']
   \<and> notes (computeAortopathy [''BAVGt50'' \<mapsto> ''yes''])
       = [''BAV aortic diameter >50 mm'']"
proof -
  have none: "notes (computeCardiomyopathy a) = []" "notes (computeCongenital a) = []"
    "notes (computeArrhythmia a) = []" "notes (computeCoronaryOther a) = []"
    by (simp_all add: computeCardiomyopathy_def computeCongenital_def computeArrhythmia_def
        computeCoronaryOther_def Let_def)
  have some: "notes (computeVentricularPH [''PAH'' \<mapsto> ''yes''])
      = [''Pulmonary arterial hypertension'']"
    "notes (computeValvular [''MechanicalValve'' \<mapsto> ''well-controlled''])
      = [''Mechanical valve on stable anticoagulation'']"
    "notes (computeAortopathy [''BAVGt50'' \<mapsto> ''yes'']) = [''BAV aortic diameter >50 mm'']"
    by (simp_all add: computeVentricularPH_def computeValvular_def computeAortopathy_def)
  show ?thesis
    using none some by blast
qed

end
